theory Spec2Isabelle
  imports Main "HOL-Library.Multiset"
begin

section \<open>The SELECT code generator of box/sql/select.c\<close>

text \<open>
  select.c turns a resolved SELECT tree into a linear VDBE program.  The theory has three
  layers: the instruction format and the parsing context the generator writes into, the
  generator functions of select.c themselves, and a small interpreter for the instructions
  they emit, which gives the emitted programs a meaning.
\<close>

subsection \<open>Instructions\<close>

datatype opcode =
    OP_Integer | OP_Null | OP_Copy | OP_SCopy | OP_Move | OP_Variable
  | OP_Goto | OP_Gosub | OP_Return | OP_InitCoroutine | OP_EndCoroutine | OP_Yield
  | OP_Halt | OP_Once | OP_If | OP_IfNot | OP_Eq | OP_Ne
  | OP_IfPos | OP_IfNotZero | OP_DecrJumpZero | OP_OffsetLimit | OP_MustBeInt
  | OP_Permutation | OP_Compare | OP_Jump
  | OP_OpenTEphemeral | OP_IteratorOpen | OP_Close
  | OP_Rewind | OP_Next | OP_Column | OP_RowData
  | OP_MakeRecord | OP_IdxInsert | OP_IdxDelete | OP_Found | OP_NotFound
  | OP_NextIdEphemeral | OP_Count | OP_ResultRow | OP_Explain | OP_Noop
  | OP_SorterOpen | OP_SorterInsert | OP_SorterSort | OP_SorterData | OP_SorterNext
  | OP_OpenPseudo | OP_Sequence | OP_Sort | OP_Last | OP_Prev | OP_Delete

datatype sort_order = SORT_ORDER_ASC | SORT_ORDER_DESC

text \<open>One part of a \<open>key_def\<close>: field number, collation id (\<open>None\<close> is COLL_NONE) and
  direction.\<close>

record key_part =
  fieldno :: nat
  coll_id :: "nat option"
  part_order :: sort_order

type_synonym key_def = "key_part list"

datatype p4_operand =
    P4_NOTUSED
  | P4_STATIC string
  | P4_DYNAMIC string
  | P4_KEYDEF key_def
  | P4_INTARRAY "int list"
  | P4_INT32 int
  | P4_SPACEPTR nat
  | P4_FUNCDEF string

record VdbeOp =
  opcode :: opcode
  p1 :: int
  p2 :: int
  p3 :: int
  p4 :: p4_operand
  p5 :: int

definition mk_op :: "opcode \<Rightarrow> int \<Rightarrow> int \<Rightarrow> int \<Rightarrow> p4_operand \<Rightarrow> VdbeOp" where
  "mk_op c a b d e = \<lparr>opcode = c, p1 = a, p2 = b, p3 = d, p4 = e, p5 = 0\<rparr>"

subsection \<open>Expressions\<close>

datatype token =
    TK_SELECT | TK_ALL | TK_UNION | TK_EXCEPT | TK_INTERSECT
  | TK_INTEGER | TK_UMINUS | TK_UPLUS | TK_NULL | TK_VARIABLE
  | TK_COLUMN | TK_AGG_COLUMN | TK_AGG_FUNCTION | TK_FUNCTION | TK_ASTERISK

datatype ep_flag =
    EP_Collate | EP_System | EP_Distinct | EP_IntValue | EP_xIsSelect | EP_FromJoin

datatype Expr = Expr
  (eop: token)
  (eflags: "ep_flag set")
  (iValue: int)
  (zToken: string)
  (iTable: int)
  (iColumn: int)
  (pLeft: "Expr option")
  (x_pList: "Expr list option")
  (pColl: "nat option")
  (iAgg: int)

text \<open>An \<open>ExprList\<close> entry; \<open>iOrderByCol\<close> is the one-based result column an ORDER BY
  term mirrors.\<close>

record ExprList_item =
  pExpr :: Expr
  item_order :: sort_order
  iOrderByCol :: nat

type_synonym ExprList = "ExprList_item list"

text \<open>Aggregate information: one entry per aggregate function call, with its accumulator
  register \<open>func_iMem\<close> and the cursor \<open>iDistinct\<close> of its DISTINCT relation (negative when
  there is none), and one entry per plain column.\<close>

datatype func_flag = SQLITE_FUNC_COUNT | SQLITE_FUNC_NEEDCOLL | SQLITE_FUNC_MINMAX

record AggInfo_func =
  func_pExpr :: Expr
  funcFlags :: "func_flag set"
  func_iMem :: int
  iDistinct :: int

record AggInfo_col =
  col_pExpr :: Expr
  col_iMem :: int

record AggInfo =
  aCol :: "AggInfo_col list"
  aFunc :: "AggInfo_func list"
  nAccumulator :: nat
  mnReg :: int
  mxReg :: int

subsection \<open>The parsing context\<close>

text \<open>
  The fields of \<open>Parse\<close> (and of the \<open>Vdbe\<close> and \<open>sqlite3\<close> objects it points to) that
  select.c reads or writes in the functions below.  \<open>aLabel\<close> holds the resolved address
  of each label (\<open>-1\<close> while unresolved); label number \<open>k\<close> is the value \<open>-1-k\<close>, as the
  \<open>ADDR\<close> macro has it.  \<open>zErrMsg\<close> keeps every message \<open>sqlite3ErrorMsg\<close> was given,
  the latest first.  \<open>pAggInfo\<close> is the aggregate information the expressions of the
  query being coded point to.  \<open>notModelled\<close> is set when code generation reaches a part of
  the engine that this theory does not describe.
\<close>

record Parse =
  aOp :: "VdbeOp list"
  aLabel :: "int list"
  nMem :: int
  nTab :: int
  aTempReg :: "int list"
  aColCache :: "(int \<times> int \<times> int) list"
  nErr :: nat
  zErrMsg :: "string list"
  mallocFailed :: bool
  iSelectId :: int
  iNextSelectId :: int
  explain :: int
  pAggInfo :: "AggInfo option"
  notModelled :: bool

text \<open>Modelled from the spec: vdbeaux.c, which appends instructions to the program under
  construction, is not among the sources.  Each \<open>sqlite3VdbeAddOp\<close> appends one instruction
  and its address is the length of the program before the call; labels are resolved to the
  address current at the call of \<open>sqlite3VdbeResolveLabel\<close>; "the emitted instructions form a
  linear stream with labeled jump targets".\<close>

definition sqlite3VdbeCurrentAddr :: "Parse \<Rightarrow> int" where
  "sqlite3VdbeCurrentAddr P = int (length (aOp P))"

definition sqlite3VdbeAddOp4 :: "opcode \<Rightarrow> int \<Rightarrow> int \<Rightarrow> int \<Rightarrow> p4_operand \<Rightarrow> Parse \<Rightarrow> Parse" where
  "sqlite3VdbeAddOp4 c a b d e P = P\<lparr>aOp := aOp P @ [mk_op c a b d e]\<rparr>"

definition sqlite3VdbeAddOp3 :: "opcode \<Rightarrow> int \<Rightarrow> int \<Rightarrow> int \<Rightarrow> Parse \<Rightarrow> Parse" where
  "sqlite3VdbeAddOp3 c a b d P = sqlite3VdbeAddOp4 c a b d P4_NOTUSED P"

definition sqlite3VdbeAddOp2 :: "opcode \<Rightarrow> int \<Rightarrow> int \<Rightarrow> Parse \<Rightarrow> Parse" where
  "sqlite3VdbeAddOp2 c a b P = sqlite3VdbeAddOp3 c a b 0 P"

definition sqlite3VdbeAddOp1 :: "opcode \<Rightarrow> int \<Rightarrow> Parse \<Rightarrow> Parse" where
  "sqlite3VdbeAddOp1 c a P = sqlite3VdbeAddOp3 c a 0 0 P"

definition sqlite3VdbeAddOp0 :: "opcode \<Rightarrow> Parse \<Rightarrow> Parse" where
  "sqlite3VdbeAddOp0 c P = sqlite3VdbeAddOp3 c 0 0 0 P"

definition sqlite3VdbeAddOp4Int :: "opcode \<Rightarrow> int \<Rightarrow> int \<Rightarrow> int \<Rightarrow> int \<Rightarrow> Parse \<Rightarrow> Parse" where
  "sqlite3VdbeAddOp4Int c a b d e P = sqlite3VdbeAddOp4 c a b d (P4_INT32 e) P"

definition sqlite3VdbeGoto :: "int \<Rightarrow> Parse \<Rightarrow> Parse" where
  "sqlite3VdbeGoto iDest P = sqlite3VdbeAddOp3 OP_Goto 0 iDest 0 P"

text \<open>The \<open>sqlite3VdbeChange...\<close> family patches one field of the instruction at \<open>addr\<close>;
  a negative address means the instruction added last.\<close>

definition op_index :: "Parse \<Rightarrow> int \<Rightarrow> nat" where
  "op_index P addr = (if addr < 0 then length (aOp P) - 1 else nat addr)"

definition change_op :: "int \<Rightarrow> (VdbeOp \<Rightarrow> VdbeOp) \<Rightarrow> Parse \<Rightarrow> Parse" where
  "change_op addr f P =
     (if op_index P addr < length (aOp P)
      then P\<lparr>aOp := (aOp P)[op_index P addr := f (aOp P ! op_index P addr)]\<rparr>
      else P)"

definition sqlite3VdbeChangeP1 :: "int \<Rightarrow> int \<Rightarrow> Parse \<Rightarrow> Parse" where
  "sqlite3VdbeChangeP1 addr v P = change_op addr (\<lambda>x. x\<lparr>p1 := v\<rparr>) P"

definition sqlite3VdbeChangeP2 :: "int \<Rightarrow> int \<Rightarrow> Parse \<Rightarrow> Parse" where
  "sqlite3VdbeChangeP2 addr v P = change_op addr (\<lambda>x. x\<lparr>p2 := v\<rparr>) P"

definition sqlite3VdbeChangeP4 :: "int \<Rightarrow> p4_operand \<Rightarrow> Parse \<Rightarrow> Parse" where
  "sqlite3VdbeChangeP4 addr v P = change_op addr (\<lambda>x. x\<lparr>p4 := v\<rparr>) P"

definition sqlite3VdbeChangeP5 :: "int \<Rightarrow> Parse \<Rightarrow> Parse" where
  "sqlite3VdbeChangeP5 v P = change_op (-1) (\<lambda>x. x\<lparr>p5 := v\<rparr>) P"

definition sqlite3VdbeJumpHere :: "int \<Rightarrow> Parse \<Rightarrow> Parse" where
  "sqlite3VdbeJumpHere addr P = sqlite3VdbeChangeP2 addr (sqlite3VdbeCurrentAddr P) P"

definition sqlite3VdbeMakeLabel :: "Parse \<Rightarrow> int \<times> Parse" where
  "sqlite3VdbeMakeLabel P = (- 1 - int (length (aLabel P)), P\<lparr>aLabel := aLabel P @ [-1]\<rparr>)"

definition sqlite3VdbeResolveLabel :: "int \<Rightarrow> Parse \<Rightarrow> Parse" where
  "sqlite3VdbeResolveLabel x P =
     (if x < 0 \<and> nat (- 1 - x) < length (aLabel P)
      then P\<lparr>aLabel := (aLabel P)[nat (- 1 - x) := sqlite3VdbeCurrentAddr P]\<rparr>
      else P)"

text \<open>Modelled from the spec: the temporary-register pool of expr.c is not among the
  sources.  A released register is reused by the next request; otherwise a fresh register
  \<open>++nMem\<close> is allocated.  A range is always allocated fresh.\<close>

definition sqlite3GetTempReg :: "Parse \<Rightarrow> int \<times> Parse" where
  "sqlite3GetTempReg P =
     (case aTempReg P of
        [] \<Rightarrow> (nMem P + 1, P\<lparr>nMem := nMem P + 1\<rparr>)
      | r # rs \<Rightarrow> (r, P\<lparr>aTempReg := rs\<rparr>))"

definition sqlite3ReleaseTempReg :: "int \<Rightarrow> Parse \<Rightarrow> Parse" where
  "sqlite3ReleaseTempReg r P =
     (if r \<noteq> 0 \<and> length (aTempReg P) < 8 then P\<lparr>aTempReg := r # aTempReg P\<rparr> else P)"

definition sqlite3GetTempRange :: "int \<Rightarrow> Parse \<Rightarrow> int \<times> Parse" where
  "sqlite3GetTempRange n P =
     (if n = 1 then sqlite3GetTempReg P else (nMem P + 1, P\<lparr>nMem := nMem P + n\<rparr>))"

definition sqlite3ReleaseTempRange :: "int \<Rightarrow> int \<Rightarrow> Parse \<Rightarrow> Parse" where
  "sqlite3ReleaseTempRange r n P = (if n = 1 then sqlite3ReleaseTempReg r P else P)"

definition sqlite3ClearTempRegCache :: "Parse \<Rightarrow> Parse" where
  "sqlite3ClearTempRegCache P = P\<lparr>aTempReg := []\<rparr>"

definition sqlite3ExprCacheClear :: "Parse \<Rightarrow> Parse" where
  "sqlite3ExprCacheClear P = P\<lparr>aColCache := []\<rparr>"

definition sqlite3ErrorMsg :: "string \<Rightarrow> Parse \<Rightarrow> Parse" where
  "sqlite3ErrorMsg msg P = P\<lparr>nErr := Suc (nErr P), zErrMsg := msg # zErrMsg P\<rparr>"

subsection \<open>Expression services\<close>

text \<open>Modelled from the spec: expr.c is not among the sources; scalar expression code
  generation is "a black box that computes an expression into a register".  The model
  covers integer literals (also under a unary sign), NULL, bound variables, column
  references and references to an aggregate accumulator, one instruction each; any other
  expression marks the context \<open>notModelled\<close>.\<close>

fun sqlite3ExprIsInteger :: "Expr \<Rightarrow> int option" where
  "sqlite3ExprIsInteger (Expr c fl v z t k l xs cl ag) =
     (if EP_IntValue \<in> fl then Some v
      else if c = TK_UPLUS then (case l of None \<Rightarrow> None | Some e \<Rightarrow> sqlite3ExprIsInteger e)
      else if c = TK_UMINUS then
        (case l of None \<Rightarrow> None | Some e \<Rightarrow> map_option uminus (sqlite3ExprIsInteger e))
      else None)"

definition sqlite3ExprCode :: "Expr \<Rightarrow> int \<Rightarrow> Parse \<Rightarrow> Parse" where
  "sqlite3ExprCode e target P =
     (case sqlite3ExprIsInteger e of
        Some n \<Rightarrow> sqlite3VdbeAddOp2 OP_Integer n target P
      | None \<Rightarrow>
         (if eop e = TK_NULL then sqlite3VdbeAddOp2 OP_Null 0 target P
          else if eop e = TK_VARIABLE then sqlite3VdbeAddOp2 OP_Variable (iColumn e) target P
          else if eop e = TK_COLUMN \<or> eop e = TK_AGG_COLUMN
            then sqlite3VdbeAddOp3 OP_Column (iTable e) (iColumn e) target P
          else if eop e = TK_AGG_FUNCTION then
            (case pAggInfo P of
               None \<Rightarrow> sqlite3ErrorMsg (''misuse of aggregate: '' @ zToken e) P
             | Some ai \<Rightarrow>
                 if 0 \<le> iAgg e \<and> nat (iAgg e) < length (aFunc ai)
                 then sqlite3VdbeAddOp2 OP_SCopy (func_iMem (aFunc ai ! nat (iAgg e))) target P
                 else P\<lparr>notModelled := True\<rparr>)
          else P\<lparr>notModelled := True\<rparr>))"

datatype ecel_flag = SQLITE_ECEL_DUP | SQLITE_ECEL_REF | SQLITE_ECEL_OMITREF

text \<open>\<open>sqlite3ExprCodeExprList\<close> evaluates the list into consecutive registers starting at
  \<open>target\<close> and returns the number of registers written.  With \<open>SQLITE_ECEL_REF\<close> an entry
  that mirrors result column \<open>j\<close> is copied from register \<open>srcReg + j - 1\<close>, or left out
  altogether with \<open>SQLITE_ECEL_OMITREF\<close>.\<close>

fun sqlite3ExprCodeExprList ::
  "ExprList \<Rightarrow> int \<Rightarrow> int \<Rightarrow> ecel_flag set \<Rightarrow> Parse \<Rightarrow> int \<times> Parse" where
  "sqlite3ExprCodeExprList [] target srcReg fl P = (0, P)"
| "sqlite3ExprCodeExprList (x # xs) target srcReg fl P =
     (if SQLITE_ECEL_REF \<in> fl \<and> iOrderByCol x > 0 then
        (if SQLITE_ECEL_OMITREF \<in> fl then sqlite3ExprCodeExprList xs target srcReg fl P
         else
           let (n, P1) = sqlite3ExprCodeExprList xs (target + 1) srcReg fl
                  (sqlite3VdbeAddOp2 (if SQLITE_ECEL_DUP \<in> fl then OP_Copy else OP_SCopy)
                     (int (iOrderByCol x) + srcReg - 1) target P)
           in (n + 1, P1))
      else
        let (n, P1) = sqlite3ExprCodeExprList xs (target + 1) srcReg fl
               (sqlite3ExprCode (pExpr x) target P)
        in (n + 1, P1))"

definition sqlite3ExprCodeMove :: "int \<Rightarrow> int \<Rightarrow> int \<Rightarrow> Parse \<Rightarrow> Parse" where
  "sqlite3ExprCodeMove iFrom iTo nReg P = sqlite3VdbeAddOp3 OP_Move iFrom iTo nReg P"

text \<open>Modelled from the spec: util.c is not among the sources.  \<open>sqlite3LogEst\<close> and
  \<open>sqlite3LogEstAdd\<close> work on the logarithmic row-count estimates that the planner uses;
  no emitted instruction depends on them.\<close>

fun logest_up :: "nat \<Rightarrow> int \<Rightarrow> nat \<Rightarrow> int \<times> nat" where
  "logest_up 0 y x = (y, x)"
| "logest_up (Suc k) y x = (if x < 8 then logest_up k (y - 10) (2 * x) else (y, x))"

fun logest_down4 :: "nat \<Rightarrow> int \<Rightarrow> nat \<Rightarrow> int \<times> nat" where
  "logest_down4 0 y x = (y, x)"
| "logest_down4 (Suc k) y x = (if x > 255 then logest_down4 k (y + 40) (x div 16) else (y, x))"

fun logest_down1 :: "nat \<Rightarrow> int \<Rightarrow> nat \<Rightarrow> int \<times> nat" where
  "logest_down1 0 y x = (y, x)"
| "logest_down1 (Suc k) y x = (if x > 15 then logest_down1 k (y + 10) (x div 2) else (y, x))"

definition sqlite3LogEst :: "nat \<Rightarrow> int" where
  "sqlite3LogEst x =
     (if x < 2 then 0
      else
        let (y, x') = (if x < 8 then logest_up 3 40 x
                       else (let (y1, x1) = logest_down4 16 40 x in logest_down1 8 y1 x1))
        in [0, 2, 3, 5, 6, 7, 8, 9] ! (x' mod 8) + y - 10)"

definition sqlite3LogEstAdd :: "int \<Rightarrow> int \<Rightarrow> int" where
  "sqlite3LogEstAdd a b =
     (let x = [10,10,9,9,8,8,7,7,7,6,6,6,5,5,5,4,4,4,4,3,3,3,3,3,3,2,2,2,2,2,2,2::int];
          hi = max a b; lo = min a b
      in if hi > lo + 49 then hi
         else if hi > lo + 31 then hi + 1
         else hi + x ! nat (hi - lo))"

subsection \<open>Query nodes and destinations\<close>

datatype sel_flag =
    SF_Distinct | SF_All | SF_Aggregate | SF_UsesEphemeral | SF_Values | SF_MultiValue
  | SF_Recursive | SF_FixedLimit | SF_SingleRow | SF_HasTypeInfo

record select_fields =
  pEList :: ExprList
  op :: token
  selFlags :: "sel_flag set"
  iLimit :: int
  iOffset :: int
  addrOpenEphm :: "int \<times> int"
  nSelectRow :: int
  pWhere :: "Expr option"
  pGroupBy :: "ExprList option"
  pHaving :: "Expr option"
  pOrderBy :: "ExprList option"
  pLimit :: "Expr option"
  pOffset :: "Expr option"

datatype join_flag = JT_INNER | JT_CROSS | JT_NATURAL | JT_LEFT | JT_RIGHT | JT_OUTER

text \<open>The fields of a FROM-clause entry that do not point into the tree.  \<open>space_id\<close> and
  \<open>field_count\<close> stand for \<open>pTab->def->id\<close> and \<open>pTab->def->field_count\<close>.\<close>

record srcitem_fields =
  zName :: string
  space_id :: nat
  field_count :: nat
  iCursor :: int
  jointype :: "join_flag set"
  isCorrelated :: bool
  viaCoroutine :: bool
  isRecursive :: bool
  addrFillSub :: int
  regReturn :: int
  regResult :: int

text \<open>A \<open>Select\<close> owns its FROM list and its prior term; a null pointer is \<open>None\<close>.  The
  non-owning back pointer \<open>pNext\<close> is not stored: the code generator receives the right-most
  term and walks \<open>pPrior\<close>.\<close>

datatype Select = Select (sf: select_fields) (pSrc: "SrcList_item list") (pPrior: "Select option")
  and SrcList_item = SrcList_item (sif: srcitem_fields) (pSelect: "Select option")

datatype srt =
    SRT_Union | SRT_Except | SRT_Exists | SRT_Discard | SRT_Fifo | SRT_DistFifo | SRT_Queue
  | SRT_DistQueue | SRT_Mem | SRT_Set | SRT_EphemTab | SRT_Coroutine | SRT_Table | SRT_Output

record SelectDest =
  eDest :: srt
  iSDParm :: int
  zAffSdst :: "string option"
  iSdst :: int
  nSdst :: int
  dest_pOrderBy :: "ExprList option"

definition sqlite3SelectDestInit :: "srt \<Rightarrow> int \<Rightarrow> SelectDest" where
  "sqlite3SelectDestInit e iParm =
     \<lparr>eDest = e, iSDParm = iParm, zAffSdst = None, iSdst = 0, nSdst = 0, dest_pOrderBy = None\<rparr>"

subsection \<open>LIMIT and OFFSET registers\<close>

definition SQL_TARANTOOL_ERROR :: int where "SQL_TARANTOOL_ERROR = 1"
definition ER_SQL_EXECUTE :: int where "ER_SQL_EXECUTE = 2"
definition SQLITE_NULLEQ :: int where "SQLITE_NULLEQ = 128"

text \<open>The message \<^verbatim>\<open>near "COLLATE": syntax error\<close>.\<close>

definition msg_collate :: string where
  "msg_collate = ''near '' @ [CHR 0x22] @ ''COLLATE'' @ [CHR 0x22] @ '': syntax error''"

text \<open>\<open>computeLimitRegisters\<close>: the early return on an assigned \<open>iLimit\<close>, the COLLATE
  error, the constant and the computed LIMIT, the single-row rewriting and the OFFSET.\<close>

definition computeLimitRegisters :: "Parse \<Rightarrow> select_fields \<Rightarrow> int \<Rightarrow> Parse \<times> select_fields" where
  "computeLimitRegisters pParse p iBreak =
    (if iLimit p \<noteq> 0 then (pParse, p)
     else
       let P0 = sqlite3ExprCacheClear pParse in
       (case pLimit p of
          None \<Rightarrow> (P0, p)
        | Some lim \<Rightarrow>
           if EP_Collate \<in> eflags lim \<or>
              (case pOffset p of None \<Rightarrow> False | Some off \<Rightarrow> EP_Collate \<in> eflags off)
           then (sqlite3ErrorMsg msg_collate P0, p)
           else
             let P1 = P0\<lparr>nMem := nMem P0 + 1\<rparr>;
                 iLim = nMem P1;
                 p1 = p\<lparr>iLimit := iLim\<rparr>;
                 (P2, p2) =
                   (case sqlite3ExprIsInteger lim of
                      Some n \<Rightarrow>
                        let Pa = sqlite3VdbeAddOp2 OP_Integer n iLim P1 in
                        if n = 0 then (sqlite3VdbeGoto iBreak Pa, p1)
                        else if n \<ge> 0 \<and> nSelectRow p1 > sqlite3LogEst (nat n)
                          then (Pa, p1\<lparr>nSelectRow := sqlite3LogEst (nat n),
                                       selFlags := insert SF_FixedLimit (selFlags p1)\<rparr>)
                        else (Pa, p1)
                    | None \<Rightarrow>
                        let Pa = sqlite3ExprCode lim iLim P1;
                            Pb = sqlite3VdbeAddOp1 OP_MustBeInt iLim Pa
                        in (sqlite3VdbeAddOp2 OP_IfNot iLim iBreak Pb, p1));
                 (P3, p3) =
                   (if SF_SingleRow \<in> selFlags p2 then
                      (if EP_System \<in> eflags lim
                       then (sqlite3VdbeAddOp2 OP_Integer 2 iLim P2, p2)
                       else
                         let (r1, Pa) = sqlite3GetTempReg P2;
                             Pb = sqlite3VdbeAddOp2 OP_Integer 1 r1 Pa;
                             (no_err, Pc) = sqlite3VdbeMakeLabel Pb;
                             Pd = sqlite3VdbeAddOp3 OP_Eq iLim no_err r1 Pc;
                             Pe = sqlite3VdbeAddOp4 OP_Halt SQL_TARANTOOL_ERROR 0 0
                                    (P4_STATIC ''SQL error: Expression subquery could be limited only with 1'') Pd;
                             Pf = sqlite3VdbeChangeP5 ER_SQL_EXECUTE Pe;
                             Pg = sqlite3VdbeResolveLabel no_err Pf;
                             Ph = sqlite3ReleaseTempReg r1 Pg
                         in (Ph, p2\<lparr>selFlags := selFlags p2 - {SF_SingleRow}\<rparr>))
                    else (P2, p2))
             in (case pOffset p of
                   None \<Rightarrow> (P3, p3)
                 | Some off \<Rightarrow>
                    let Pa = P3\<lparr>nMem := nMem P3 + 1\<rparr>;
                        iOff = nMem Pa;
                        p4 = p3\<lparr>iOffset := iOff\<rparr>;
                        Pb = Pa\<lparr>nMem := nMem Pa + 1\<rparr>;
                        Pc = sqlite3ExprCode off iOff Pb;
                        Pd = sqlite3VdbeAddOp1 OP_MustBeInt iOff Pc
                    in (sqlite3VdbeAddOp3 OP_OffsetLimit iLim (iOff + 1) iOff Pd, p4))))"

text \<open>\<open>codeOffset\<close>: skip the current row while the OFFSET counter is positive.\<close>

definition codeOffset :: "int \<Rightarrow> int \<Rightarrow> Parse \<Rightarrow> Parse" where
  "codeOffset iOff iContinue P =
     (if iOff > 0 then sqlite3VdbeAddOp3 OP_IfPos iOff iContinue 1 P else P)"

subsection \<open>The instruction interpreter\<close>

text \<open>Modelled from the spec: vdbe.c, the bytecode interpreter, is not among the sources.
  The interpreter below gives each instruction the select.c generator emits the meaning its
  comments in select.c and the specification rely on: a flat register file, numbered cursors
  over base relations, ephemeral relations (sets of rows ordered by the whole row), sorters
  and one-row pseudo cursors; subroutines and coroutines as saved addresses in registers;
  \<open>OP_ResultRow\<close> hands one row to the caller.  Rows compare with NULL first, then integers
  in numeric order, then records; collations other than the binary one are not
  distinguished.\<close>

datatype Mem = MNull | MInt int | MRec "Mem list"

fun mem_cmp :: "Mem \<Rightarrow> Mem \<Rightarrow> int" and row_cmp :: "Mem list \<Rightarrow> Mem list \<Rightarrow> int" where
  "mem_cmp MNull MNull = 0"
| "mem_cmp MNull (MInt b) = -1"
| "mem_cmp MNull (MRec b) = -1"
| "mem_cmp (MInt a) MNull = 1"
| "mem_cmp (MInt a) (MInt b) = (if a < b then -1 else if a = b then 0 else 1)"
| "mem_cmp (MInt a) (MRec b) = -1"
| "mem_cmp (MRec a) MNull = 1"
| "mem_cmp (MRec a) (MInt b) = 1"
| "mem_cmp (MRec a) (MRec b) = row_cmp a b"
| "row_cmp [] [] = 0"
| "row_cmp [] (y # ys) = -1"
| "row_cmp (x # xs) [] = 1"
| "row_cmp (x # xs) (y # ys) = (if mem_cmp x y = 0 then row_cmp xs ys else mem_cmp x y)"

text \<open>Comparison of the first \<open>n\<close> fields under a key definition: field \<open>i\<close> of the key is
  column \<open>perm i\<close> of each row; a descending part reverses the sign.\<close>

fun key_cmp :: "key_def \<Rightarrow> (nat \<Rightarrow> nat) \<Rightarrow> nat \<Rightarrow> nat \<Rightarrow> Mem list \<Rightarrow> Mem list \<Rightarrow> int" where
  "key_cmp kd perm i 0 a b = 0"
| "key_cmp kd perm i (Suc n) a b =
     (let x = (if perm i < length a then a ! perm i else MNull);
          y = (if perm i < length b then b ! perm i else MNull);
          c = mem_cmp x y;
          c' = (if i < length kd \<and> part_order (kd ! i) = SORT_ORDER_DESC then - c else c)
      in if c' = 0 then key_cmp kd perm (Suc i) n a b else c')"

text \<open>An ephemeral relation keeps its rows ordered by the whole row and holds no two equal
  rows: inserting a row that is present replaces it.\<close>

fun eph_insert :: "Mem list \<Rightarrow> Mem list list \<Rightarrow> Mem list list" where
  "eph_insert r [] = [r]"
| "eph_insert r (x # xs) =
     (if row_cmp r x = 0 then r # xs
      else if row_cmp r x < 0 then r # x # xs
      else x # eph_insert r xs)"

definition eph_delete :: "Mem list \<Rightarrow> Mem list list \<Rightarrow> Mem list list" where
  "eph_delete k xs = filter (\<lambda>x. row_cmp x k \<noteq> 0) xs"

definition eph_found :: "Mem list \<Rightarrow> Mem list list \<Rightarrow> bool" where
  "eph_found k xs = list_ex (\<lambda>x. row_cmp x k = 0) xs"

text \<open>A sorter orders its records by the leading key fields, keeping the insertion order
  of records with equal keys.\<close>

fun sorter_insert :: "key_def \<Rightarrow> Mem list \<Rightarrow> Mem list list \<Rightarrow> Mem list list" where
  "sorter_insert kd r [] = [r]"
| "sorter_insert kd r (x # xs) =
     (if key_cmp kd (\<lambda>i. i) 0 (length kd) r x < 0 then r # x # xs
      else x # sorter_insert kd r xs)"

definition sorter_sort :: "key_def \<Rightarrow> Mem list list \<Rightarrow> Mem list list" where
  "sorter_sort kd xs = foldl (\<lambda>acc r. sorter_insert kd r acc) [] xs"

datatype cursor_type = CURTYPE_TARANTOOL | CURTYPE_SORTER | CURTYPE_PSEUDO

record VdbeCursor =
  eCurType :: cursor_type
  c_rows :: "Mem list list"
  c_pos :: nat
  c_keydef :: key_def
  seqCount :: int
  pseudoTableReg :: int

datatype vm_rc = SQLITE_OK | SQLITE_DONE | SQLITE_ERROR string

text \<open>The machine: program counter, registers, cursors, the rows handed to the caller so
  far, the result of the last \<open>OP_Compare\<close>, the pending permutation, the addresses of the
  \<open>OP_Once\<close> instructions already passed, and the status.  \<open>spaces\<close> and \<open>aVar\<close> are the
  database relations and the bound parameters.\<close>

record Vdbe =
  pc :: nat
  aMem :: "int \<Rightarrow> Mem"
  apCsr :: "int \<Rightarrow> VdbeCursor option"
  resultSet :: "Mem list list"
  iCompare :: int
  aPermute :: "int list option"
  onceDone :: "nat set"
  rc :: vm_rc
  spaces :: "nat \<Rightarrow> Mem list list"
  aVar :: "int \<Rightarrow> Mem"

definition mem_int :: "Mem \<Rightarrow> int" where
  "mem_int m = (case m of MInt i \<Rightarrow> i | _ \<Rightarrow> 0)"

definition mem_row :: "Mem \<Rightarrow> Mem list" where
  "mem_row m = (case m of MRec r \<Rightarrow> r | _ \<Rightarrow> [])"

definition reg_range :: "Vdbe \<Rightarrow> int \<Rightarrow> int \<Rightarrow> Mem list" where
  "reg_range s r n = map (\<lambda>i. aMem s (r + int i)) [0..<nat n]"

text \<open>\<open>null_regs a n\<close> clears the \<open>n\<close> registers from \<open>a\<close> on; \<open>copy_regs src a b n\<close> writes
  the values the registers \<open>a, a+1, ...\<close> had in \<open>src\<close> to the \<open>n\<close> registers from \<open>b\<close> on.\<close>

fun null_regs :: "int \<Rightarrow> nat \<Rightarrow> (int \<Rightarrow> Mem) \<Rightarrow> (int \<Rightarrow> Mem)" where
  "null_regs a 0 f = f"
| "null_regs a (Suc n) f = null_regs (a + 1) n (f(a := MNull))"

fun copy_regs :: "(int \<Rightarrow> Mem) \<Rightarrow> int \<Rightarrow> int \<Rightarrow> nat \<Rightarrow> (int \<Rightarrow> Mem) \<Rightarrow> (int \<Rightarrow> Mem)" where
  "copy_regs src a b 0 f = f"
| "copy_regs src a b (Suc n) f = copy_regs src (a + 1) (b + 1) n (f(b := src a))"

definition set_mem :: "int \<Rightarrow> Mem \<Rightarrow> Vdbe \<Rightarrow> Vdbe" where
  "set_mem r v s = s\<lparr>aMem := (aMem s)(r := v)\<rparr>"

definition next_pc :: "Vdbe \<Rightarrow> Vdbe" where
  "next_pc s = s\<lparr>pc := Suc (pc s)\<rparr>"

definition jump_to :: "int \<Rightarrow> Vdbe \<Rightarrow> Vdbe" where
  "jump_to a s = s\<lparr>pc := nat a\<rparr>"

definition vm_fail :: "string \<Rightarrow> Vdbe \<Rightarrow> Vdbe" where
  "vm_fail msg s = s\<lparr>rc := SQLITE_ERROR msg\<rparr>"

definition set_cursor :: "int \<Rightarrow> VdbeCursor \<Rightarrow> Vdbe \<Rightarrow> Vdbe" where
  "set_cursor c cur s = s\<lparr>apCsr := (apCsr s)(c := Some cur)\<rparr>"

definition new_cursor :: "cursor_type \<Rightarrow> Mem list list \<Rightarrow> key_def \<Rightarrow> int \<Rightarrow> VdbeCursor" where
  "new_cursor t xs kd r =
     \<lparr>eCurType = t, c_rows = xs, c_pos = 0, c_keydef = kd, seqCount = 0, pseudoTableReg = r\<rparr>"

definition with_cursor :: "int \<Rightarrow> (VdbeCursor \<Rightarrow> Vdbe) \<Rightarrow> Vdbe \<Rightarrow> Vdbe" where
  "with_cursor c f s = (case apCsr s c of None \<Rightarrow> vm_fail ''no cursor'' s | Some cur \<Rightarrow> f cur)"

text \<open>The row a cursor points at: the current row of a relation or sorter, or the record
  held in the register of a pseudo cursor.\<close>

definition cursor_row :: "Vdbe \<Rightarrow> VdbeCursor \<Rightarrow> Mem list" where
  "cursor_row s cur =
     (if eCurType cur = CURTYPE_PSEUDO then mem_row (aMem s (pseudoTableReg cur))
      else if c_pos cur < length (c_rows cur) then c_rows cur ! c_pos cur else [])"

definition p4_keydef :: "p4_operand \<Rightarrow> key_def" where
  "p4_keydef x = (case x of P4_KEYDEF kd \<Rightarrow> kd | _ \<Rightarrow> [])"

definition OPFLAG_PERMUTE :: int where "OPFLAG_PERMUTE = 1"

definition exec_op :: "VdbeOp list \<Rightarrow> VdbeOp \<Rightarrow> Vdbe \<Rightarrow> Vdbe" where
  "exec_op prog x s =
    (case opcode x of
       OP_Integer \<Rightarrow> next_pc (set_mem (p2 x) (MInt (p1 x)) s)
     | OP_Null \<Rightarrow>
         next_pc (s\<lparr>aMem := null_regs (p2 x) (nat (max (p2 x) (p3 x) - p2 x + 1)) (aMem s)\<rparr>)
     | OP_Copy \<Rightarrow>
         next_pc (s\<lparr>aMem := copy_regs (aMem s) (p1 x) (p2 x) (nat (p3 x + 1)) (aMem s)\<rparr>)
     | OP_SCopy \<Rightarrow> next_pc (set_mem (p2 x) (aMem s (p1 x)) s)
     | OP_Move \<Rightarrow>
         next_pc (s\<lparr>aMem := copy_regs (aMem s) (p1 x) (p2 x) (nat (p3 x))
                                  (null_regs (p1 x) (nat (p3 x)) (aMem s))\<rparr>)
     | OP_Variable \<Rightarrow> next_pc (set_mem (p2 x) (aVar s (p1 x)) s)
     | OP_Goto \<Rightarrow> jump_to (p2 x) s
     | OP_Gosub \<Rightarrow> jump_to (p2 x) (set_mem (p1 x) (MInt (int (pc s))) s)
     | OP_Return \<Rightarrow> jump_to (mem_int (aMem s (p1 x)) + 1) s
     | OP_InitCoroutine \<Rightarrow>
         (let s1 = set_mem (p1 x) (MInt (p3 x - 1)) s
          in if p2 x \<noteq> 0 then jump_to (p2 x) s1 else next_pc s1)
     | OP_EndCoroutine \<Rightarrow>
         (let caller = nat (mem_int (aMem s (p1 x)))
          in if caller < length prog
             then jump_to (p2 (prog ! caller)) (set_mem (p1 x) MNull s)
             else vm_fail ''bad coroutine return'' s)
     | OP_Yield \<Rightarrow>
         jump_to (mem_int (aMem s (p1 x)) + 1) (set_mem (p1 x) (MInt (int (pc s))) s)
     | OP_Halt \<Rightarrow>
         (if p1 x = 0 then s\<lparr>rc := SQLITE_DONE\<rparr>
          else vm_fail (case p4 x of P4_STATIC m \<Rightarrow> m | P4_DYNAMIC m \<Rightarrow> m | _ \<Rightarrow> []) s)
     | OP_Once \<Rightarrow>
         (if pc s \<in> onceDone s then jump_to (p2 x) s
          else next_pc (s\<lparr>onceDone := insert (pc s) (onceDone s)\<rparr>))
     | OP_If \<Rightarrow>
         (case aMem s (p1 x) of
            MInt i \<Rightarrow> if i \<noteq> 0 then jump_to (p2 x) s else next_pc s
          | _ \<Rightarrow> if p3 x \<noteq> 0 then jump_to (p2 x) s else next_pc s)
     | OP_IfNot \<Rightarrow>
         (case aMem s (p1 x) of
            MInt i \<Rightarrow> if i = 0 then jump_to (p2 x) s else next_pc s
          | _ \<Rightarrow> if p3 x \<noteq> 0 then jump_to (p2 x) s else next_pc s)
     | OP_Eq \<Rightarrow>
         (if (aMem s (p1 x) = MNull \<or> aMem s (p3 x) = MNull) \<and> p5 x \<noteq> SQLITE_NULLEQ
          then next_pc s
          else if mem_cmp (aMem s (p3 x)) (aMem s (p1 x)) = 0 then jump_to (p2 x) s
          else next_pc s)
     | OP_Ne \<Rightarrow>
         (if (aMem s (p1 x) = MNull \<or> aMem s (p3 x) = MNull) \<and> p5 x \<noteq> SQLITE_NULLEQ
          then next_pc s
          else if mem_cmp (aMem s (p3 x)) (aMem s (p1 x)) \<noteq> 0 then jump_to (p2 x) s
          else next_pc s)
     | OP_IfPos \<Rightarrow>
         (if mem_int (aMem s (p1 x)) > 0
          then jump_to (p2 x) (set_mem (p1 x) (MInt (mem_int (aMem s (p1 x)) - p3 x)) s)
          else next_pc s)
     | OP_IfNotZero \<Rightarrow>
         (let v = mem_int (aMem s (p1 x))
          in if v \<noteq> 0
             then jump_to (p2 x) (if v > 0 then set_mem (p1 x) (MInt (v - 1)) s else s)
             else next_pc s)
     | OP_DecrJumpZero \<Rightarrow>
         (let v = mem_int (aMem s (p1 x)) - 1; s1 = set_mem (p1 x) (MInt v) s
          in if v = 0 then jump_to (p2 x) s1 else next_pc s1)
     | OP_OffsetLimit \<Rightarrow>
         (let lim = mem_int (aMem s (p1 x)); off = mem_int (aMem s (p3 x))
          in next_pc (set_mem (p2 x)
               (MInt (if lim \<le> 0 then -1 else lim + (if off > 0 then off else 0))) s))
     | OP_MustBeInt \<Rightarrow>
         (case aMem s (p1 x) of
            MInt i \<Rightarrow> next_pc s
          | _ \<Rightarrow> if p2 x = 0 then vm_fail ''datatype mismatch'' s else jump_to (p2 x) s)
     | OP_Permutation \<Rightarrow>
         next_pc (s\<lparr>aPermute := (case p4 x of P4_INTARRAY a \<Rightarrow> Some (tl a) | _ \<Rightarrow> None)\<rparr>)
     | OP_Compare \<Rightarrow>
         (let perm = (case aPermute s of
                        Some a \<Rightarrow> if p5 x = OPFLAG_PERMUTE
                                  then (\<lambda>i. if i < length a then nat (a ! i) else i) else (\<lambda>i. i)
                      | None \<Rightarrow> (\<lambda>i. i));
              n = nat (p3 x);
              a = map (\<lambda>i. aMem s (p1 x + int (perm i))) [0..<n];
              b = map (\<lambda>i. aMem s (p2 x + int (perm i))) [0..<n]
          in next_pc (s\<lparr>iCompare := key_cmp (p4_keydef (p4 x)) (\<lambda>i. i) 0 n a b, aPermute := None\<rparr>))
     | OP_Jump \<Rightarrow>
         (if iCompare s < 0 then jump_to (p1 x) s
          else if iCompare s = 0 then jump_to (p2 x) s
          else jump_to (p3 x) s)
     | OP_OpenTEphemeral \<Rightarrow>
         next_pc (set_cursor (p1 x) (new_cursor CURTYPE_TARANTOOL [] (p4_keydef (p4 x)) 0) s)
     | OP_SorterOpen \<Rightarrow>
         next_pc (set_cursor (p1 x) (new_cursor CURTYPE_SORTER [] (p4_keydef (p4 x)) 0) s)
     | OP_OpenPseudo \<Rightarrow>
         next_pc (set_cursor (p1 x) (new_cursor CURTYPE_PSEUDO [] [] (p2 x)) s)
     | OP_IteratorOpen \<Rightarrow>
         (case p4 x of
            P4_SPACEPTR sp \<Rightarrow>
              next_pc (set_cursor (p1 x) (new_cursor CURTYPE_TARANTOOL (spaces s sp) [] 0) s)
          | _ \<Rightarrow> vm_fail ''no space'' s)
     | OP_Close \<Rightarrow> next_pc (s\<lparr>apCsr := (apCsr s)(p1 x := None)\<rparr>)
     | OP_Rewind \<Rightarrow>
         with_cursor (p1 x) (\<lambda>cur.
           if c_rows cur = [] then jump_to (p2 x) (set_cursor (p1 x) (cur\<lparr>c_pos := 0\<rparr>) s)
           else next_pc (set_cursor (p1 x) (cur\<lparr>c_pos := 0\<rparr>) s)) s
     | OP_Sort \<Rightarrow>
         with_cursor (p1 x) (\<lambda>cur.
           if c_rows cur = [] then jump_to (p2 x) (set_cursor (p1 x) (cur\<lparr>c_pos := 0\<rparr>) s)
           else next_pc (set_cursor (p1 x) (cur\<lparr>c_pos := 0\<rparr>) s)) s
     | OP_Last \<Rightarrow>
         with_cursor (p1 x) (\<lambda>cur.
           if c_rows cur = [] then
             (if p2 x > 0 then jump_to (p2 x) s else next_pc s)
           else next_pc (set_cursor (p1 x) (cur\<lparr>c_pos := length (c_rows cur) - 1\<rparr>) s)) s
     | OP_Next \<Rightarrow>
         with_cursor (p1 x) (\<lambda>cur.
           if Suc (c_pos cur) < length (c_rows cur)
           then jump_to (p2 x) (set_cursor (p1 x) (cur\<lparr>c_pos := Suc (c_pos cur)\<rparr>) s)
           else next_pc (set_cursor (p1 x) (cur\<lparr>c_pos := length (c_rows cur)\<rparr>) s)) s
     | OP_Prev \<Rightarrow>
         with_cursor (p1 x) (\<lambda>cur.
           if 0 < c_pos cur \<and> c_pos cur < length (c_rows cur)
           then jump_to (p2 x) (set_cursor (p1 x) (cur\<lparr>c_pos := c_pos cur - 1\<rparr>) s)
           else next_pc (set_cursor (p1 x) (cur\<lparr>c_pos := length (c_rows cur)\<rparr>) s)) s
     | OP_SorterSort \<Rightarrow>
         with_cursor (p1 x) (\<lambda>cur.
           if c_rows cur = [] then jump_to (p2 x) s
           else next_pc (set_cursor (p1 x)
                  (cur\<lparr>c_rows := sorter_sort (c_keydef cur) (c_rows cur), c_pos := 0\<rparr>) s)) s
     | OP_SorterNext \<Rightarrow>
         with_cursor (p1 x) (\<lambda>cur.
           if Suc (c_pos cur) < length (c_rows cur)
           then jump_to (p2 x) (set_cursor (p1 x) (cur\<lparr>c_pos := Suc (c_pos cur)\<rparr>) s)
           else next_pc (set_cursor (p1 x) (cur\<lparr>c_pos := length (c_rows cur)\<rparr>) s)) s
     | OP_SorterData \<Rightarrow>
         with_cursor (p1 x) (\<lambda>cur. next_pc (set_mem (p2 x) (MRec (cursor_row s cur)) s)) s
     | OP_SorterInsert \<Rightarrow>
         with_cursor (p1 x) (\<lambda>cur.
           next_pc (set_cursor (p1 x)
             (cur\<lparr>c_rows := c_rows cur @ [mem_row (aMem s (p2 x))]\<rparr>) s)) s
     | OP_Column \<Rightarrow>
         with_cursor (p1 x) (\<lambda>cur.
           let r = cursor_row s cur
           in next_pc (set_mem (p3 x)
                (if 0 \<le> p2 x \<and> nat (p2 x) < length r then r ! nat (p2 x) else MNull) s)) s
     | OP_RowData \<Rightarrow>
         with_cursor (p1 x) (\<lambda>cur. next_pc (set_mem (p2 x) (MRec (cursor_row s cur)) s)) s
     | OP_MakeRecord \<Rightarrow> next_pc (set_mem (p3 x) (MRec (reg_range s (p1 x) (p2 x))) s)
     | OP_Sequence \<Rightarrow>
         with_cursor (p1 x) (\<lambda>cur.
           next_pc (set_mem (p2 x) (MInt (seqCount cur))
             (set_cursor (p1 x) (cur\<lparr>seqCount := seqCount cur + 1\<rparr>) s))) s
     | OP_NextIdEphemeral \<Rightarrow>
         with_cursor (p1 x) (\<lambda>cur.
           next_pc (set_mem (p3 x) (MInt (seqCount cur))
             (set_cursor (p1 x) (cur\<lparr>seqCount := seqCount cur + 1\<rparr>) s))) s
     | OP_IdxInsert \<Rightarrow>
         with_cursor (p1 x) (\<lambda>cur.
           next_pc (set_cursor (p1 x)
             (cur\<lparr>c_rows := eph_insert (mem_row (aMem s (p2 x))) (c_rows cur)\<rparr>) s)) s
     | OP_IdxDelete \<Rightarrow>
         with_cursor (p1 x) (\<lambda>cur.
           next_pc (set_cursor (p1 x)
             (cur\<lparr>c_rows := eph_delete (reg_range s (p2 x) (p3 x)) (c_rows cur)\<rparr>) s)) s
     | OP_Delete \<Rightarrow>
         with_cursor (p1 x) (\<lambda>cur.
           next_pc (set_cursor (p1 x)
             (cur\<lparr>c_rows := take (c_pos cur) (c_rows cur) @ drop (Suc (c_pos cur)) (c_rows cur)\<rparr>) s)) s
     | OP_Found \<Rightarrow>
         with_cursor (p1 x) (\<lambda>cur.
           let k = (case p4 x of
                      P4_INT32 n \<Rightarrow> if n > 0 then reg_range s (p3 x) n else mem_row (aMem s (p3 x))
                    | _ \<Rightarrow> mem_row (aMem s (p3 x)))
           in if eph_found k (c_rows cur) then jump_to (p2 x) s else next_pc s) s
     | OP_NotFound \<Rightarrow>
         with_cursor (p1 x) (\<lambda>cur.
           let k = (case p4 x of
                      P4_INT32 n \<Rightarrow> if n > 0 then reg_range s (p3 x) n else mem_row (aMem s (p3 x))
                    | _ \<Rightarrow> mem_row (aMem s (p3 x)))
           in if eph_found k (c_rows cur) then next_pc s else jump_to (p2 x) s) s
     | OP_Count \<Rightarrow>
         with_cursor (p1 x) (\<lambda>cur.
           next_pc (set_mem (p2 x) (MInt (int (length (c_rows cur)))) s)) s
     | OP_ResultRow \<Rightarrow>
         next_pc (s\<lparr>resultSet := resultSet s @ [reg_range s (p1 x) (p2 x)]\<rparr>)
     | OP_Explain \<Rightarrow> next_pc s
     | OP_Noop \<Rightarrow> next_pc s)"

text \<open>One step: a machine that has stopped stays as it is; running past the last
  instruction ends the program.\<close>

definition step :: "VdbeOp list \<Rightarrow> Vdbe \<Rightarrow> Vdbe" where
  "step prog s =
     (if rc s \<noteq> SQLITE_OK then s
      else if pc s < length prog then exec_op prog (prog ! pc s) s
      else s\<lparr>rc := SQLITE_DONE\<rparr>)"

fun run :: "nat \<Rightarrow> VdbeOp list \<Rightarrow> Vdbe \<Rightarrow> Vdbe" where
  "run 0 prog s = s"
| "run (Suc n) prog s = run n prog (step prog s)"

text \<open>Label resolution at the end of code generation: a negative jump operand \<open>P2\<close> is
  the label \<open>-1-P2\<close> and is replaced by that label's address.\<close>

definition is_jump :: "opcode \<Rightarrow> bool" where
  "is_jump c = (c \<in> {OP_Goto, OP_Gosub, OP_InitCoroutine, OP_Yield, OP_Once, OP_If, OP_IfNot,
     OP_Eq, OP_Ne, OP_IfPos, OP_IfNotZero, OP_DecrJumpZero, OP_MustBeInt, OP_Rewind, OP_Next,
     OP_Prev, OP_Last, OP_Sort, OP_SorterSort, OP_SorterNext, OP_Found, OP_NotFound, OP_Jump})"

definition resolveP2 :: "int list \<Rightarrow> VdbeOp \<Rightarrow> VdbeOp" where
  "resolveP2 labels x =
     (if is_jump (opcode x) \<and> p2 x < 0 \<and> nat (- 1 - p2 x) < length labels
      then x\<lparr>p2 := labels ! nat (- 1 - p2 x)\<rparr> else x)"

definition vdbe_program :: "Parse \<Rightarrow> VdbeOp list" where
  "vdbe_program P = map (resolveP2 (aLabel P)) (aOp P)"

definition vdbe_init :: "(nat \<Rightarrow> Mem list list) \<Rightarrow> (int \<Rightarrow> Mem) \<Rightarrow> Vdbe" where
  "vdbe_init db vars =
     \<lparr>pc = 0, aMem = (\<lambda>r. MNull), apCsr = (\<lambda>c. None), resultSet = [], iCompare = 0,
      aPermute = None, onceDone = {}, rc = SQLITE_OK, spaces = db, aVar = vars\<rparr>"


subsection \<open>Contexts of the inner loop\<close>

datatype where_distinct =
  WHERE_DISTINCT_NOOP | WHERE_DISTINCT_UNIQUE | WHERE_DISTINCT_ORDERED | WHERE_DISTINCT_UNORDERED

record DistinctCtx =
  isTnct :: bool
  eTnctType :: where_distinct
  tabTnct :: int
  addrTnct :: int

record SortCtx =
  sort_pOrderBy :: "ExprList option"
  nOBSat :: int
  iECursor :: int
  sort_regReturn :: int
  labelBkOut :: int
  addrSortIndex :: int
  labelDone :: int
  SORTFLAG_UseSorter :: bool
  SORTFLAG_DESC :: bool
  bOrderedInnerLoop :: bool

text \<open>\<open>sql_expr_coll\<close> (expr.c) yields the collation attached to an expression, if any.\<close>

definition sql_expr_coll :: "Expr \<Rightarrow> bool \<times> nat option" where
  "sql_expr_coll e = (pColl e \<noteq> None, pColl e)"

definition sql_expr_list_to_key_def :: "ExprList \<Rightarrow> nat \<Rightarrow> key_def" where
  "sql_expr_list_to_key_def list start =
     map (\<lambda>i. \<lparr>fieldno = i - start, coll_id = snd (sql_expr_coll (pExpr (list ! i))),
                part_order = item_order (list ! i)\<rparr>) [start..<length list]"

definition codeDistinct :: "int \<Rightarrow> int \<Rightarrow> int \<Rightarrow> int \<Rightarrow> Parse \<Rightarrow> Parse" where
  "codeDistinct iTab addrRepeat N iMem pParse =
     (let (r1, P1) = sqlite3GetTempReg pParse;
          P2 = sqlite3VdbeAddOp4Int OP_Found iTab addrRepeat iMem N P1;
          P3 = sqlite3VdbeAddOp3 OP_MakeRecord iMem N r1 P2;
          P4 = sqlite3VdbeAddOp2 OP_IdxInsert iTab r1 P3
      in sqlite3ReleaseTempReg r1 P4)"

text \<open>The loop \<open>for (i = 0; i < nResultCol; i++) OP_Column srcTab i regResult+i\<close>.\<close>

fun code_columns :: "int \<Rightarrow> nat \<Rightarrow> nat \<Rightarrow> int \<Rightarrow> Parse \<Rightarrow> Parse" where
  "code_columns srcTab i 0 regRes P = P"
| "code_columns srcTab i (Suc n) regRes P =
     code_columns srcTab (Suc i) n regRes
       (sqlite3VdbeAddOp3 OP_Column srcTab (int i) (regRes + int i) P)"

text \<open>The comparison loop of the \<open>WHERE_DISTINCT_ORDERED\<close> case: \<open>OP_Ne\<close> for every column
  but the last, \<open>OP_Eq\<close> for the last, each with the column's collation and NULLEQ.\<close>

fun code_distinct_ordered :: "ExprList \<Rightarrow> nat \<Rightarrow> int \<Rightarrow> int \<Rightarrow> int \<Rightarrow> int \<Rightarrow> Parse \<Rightarrow> Parse" where
  "code_distinct_ordered [] i regRes regPrev iJump iContinue P = P"
| "code_distinct_ordered (x # xs) i regRes regPrev iJump iContinue P =
     (let P1 = (if xs \<noteq> []
                then sqlite3VdbeAddOp3 OP_Ne (regRes + int i) iJump (regPrev + int i) P
                else sqlite3VdbeAddOp3 OP_Eq (regRes + int i) iContinue (regPrev + int i) P);
          P2 = (if fst (sql_expr_coll (pExpr x))
                then sqlite3VdbeChangeP4 (-1) (P4_KEYDEF
                       [\<lparr>fieldno = 0, coll_id = snd (sql_expr_coll (pExpr x)), part_order = SORT_ORDER_ASC\<rparr>]) P1
                else P1);
          P3 = sqlite3VdbeChangeP5 SQLITE_NULLEQ P2
      in code_distinct_ordered xs (Suc i) regRes regPrev iJump iContinue P3)"

text \<open>The \<open>OP_SCopy\<close> loop of the queue destinations.\<close>

fun code_queue_keys :: "ExprList \<Rightarrow> int \<Rightarrow> int \<Rightarrow> Parse \<Rightarrow> Parse" where
  "code_queue_keys [] regRes r2 P = P"
| "code_queue_keys (x # xs) regRes r2 P =
     code_queue_keys xs regRes (r2 + 1)
       (sqlite3VdbeAddOp2 OP_SCopy (regRes + int (iOrderByCol x) - 1) r2 P)"


subsection \<open>The scan service\<close>

text \<open>Modelled from the spec: where.c, "the cost-based access-path chooser that picks
  indexes and emits the scan loop boundaries", is not among the sources.  The model scans
  at most one base relation in stored order, with no predicate: it opens the cursor and
  emits \<open>OP_Rewind\<close>; the end of the loop is \<open>OP_Next\<close> back to the loop body.  It reports
  no ORDER BY term as satisfied and no DISTINCT guarantee.  A FROM clause with no entry is
  a single iteration with no instruction.  Anything else is marked \<open>notModelled\<close>.\<close>

record WhereInfo =
  wContinue :: int
  wBreak :: int
  addrBody :: int
  w_iCur :: "int option"

definition vdbe_emit_open_cursor :: "int \<Rightarrow> int \<Rightarrow> nat \<Rightarrow> Parse \<Rightarrow> Parse" where
  "vdbe_emit_open_cursor cursor index_id space P =
     sqlite3VdbeAddOp4 OP_IteratorOpen cursor index_id 0 (P4_SPACEPTR space) P"

definition sqlite3WhereBegin :: "Parse \<Rightarrow> SrcList_item list \<Rightarrow> Expr option \<Rightarrow> Parse \<times> WhereInfo" where
  "sqlite3WhereBegin pParse pTabList pWh =
     (let (brk, P1) = sqlite3VdbeMakeLabel pParse;
          P2 = (if pWh \<noteq> None then P1\<lparr>notModelled := True\<rparr> else P1)
      in case pTabList of
           [] \<Rightarrow> (P2, \<lparr>wContinue = brk, wBreak = brk, addrBody = sqlite3VdbeCurrentAddr P2,
                        w_iCur = None\<rparr>)
         | [item] \<Rightarrow>
             let P3 = (if pSelect item \<noteq> None then P2\<lparr>notModelled := True\<rparr> else P2);
                 cur = iCursor (sif item);
                 P4 = vdbe_emit_open_cursor cur 0 (space_id (sif item)) P3;
                 (addrBrk, P5) = sqlite3VdbeMakeLabel P4;
                 (addrCont, P6) = sqlite3VdbeMakeLabel P5;
                 P7 = sqlite3VdbeAddOp2 OP_Rewind cur addrBrk P6
             in (P7, \<lparr>wContinue = addrCont, wBreak = addrBrk,
                       addrBody = sqlite3VdbeCurrentAddr P7, w_iCur = Some cur\<rparr>)
         | _ \<Rightarrow> (P2\<lparr>notModelled := True\<rparr>,
                  \<lparr>wContinue = brk, wBreak = brk, addrBody = sqlite3VdbeCurrentAddr P2,
                   w_iCur = None\<rparr>))"

definition sqlite3WhereEnd :: "WhereInfo \<Rightarrow> Parse \<Rightarrow> Parse" where
  "sqlite3WhereEnd w P =
     (case w_iCur w of
        None \<Rightarrow> sqlite3VdbeResolveLabel (wBreak w) P
      | Some cur \<Rightarrow>
          let P1 = sqlite3VdbeResolveLabel (wContinue w) P;
              P2 = sqlite3VdbeAddOp2 OP_Next cur (addrBody w) P1
          in sqlite3VdbeResolveLabel (wBreak w) P2)"

definition sqlite3WhereContinueLabel :: "WhereInfo \<Rightarrow> int" where
  "sqlite3WhereContinueLabel w = wContinue w"

definition sqlite3WhereBreakLabel :: "WhereInfo \<Rightarrow> int" where
  "sqlite3WhereBreakLabel w = wBreak w"

subsection \<open>The sort pipeline\<close>

text \<open>\<open>pushOntoSorter\<close>.  The branch for a partly satisfied ORDER BY (\<open>nOBSat > 0\<close>) is
  outside the model, as the scan service never reports one.\<close>

definition pushOntoSorter ::
  "Parse \<Rightarrow> SortCtx \<Rightarrow> select_fields \<Rightarrow> int \<Rightarrow> int \<Rightarrow> int \<Rightarrow> int \<Rightarrow> Parse \<times> SortCtx" where
  "pushOntoSorter pParse pSort pSel regData regOrigData nData nPrefixReg =
    (let bSeq = (if SORTFLAG_UseSorter pSort then 0 else 1);
         ob = the (sort_pOrderBy pSort);
         nExpr = int (length ob);
         nBase = nExpr + bSeq + nData;
         P1 = pParse\<lparr>nMem := nMem pParse + 1\<rparr>;
         regRecord = nMem P1;
         (regBase, P2) = (if nPrefixReg \<noteq> 0 then (regData - nExpr - bSeq, P1)
                          else (nMem P1 + 1, P1\<lparr>nMem := nMem P1 + nBase\<rparr>));
         iLim = (if iOffset pSel \<noteq> 0 then iOffset pSel + 1 else iLimit pSel);
         (lblDone, P3) = sqlite3VdbeMakeLabel P2;
         pSort1 = pSort\<lparr>labelDone := lblDone\<rparr>;
         P4 = snd (sqlite3ExprCodeExprList ob regBase regOrigData
                (if regOrigData \<noteq> 0 then {SQLITE_ECEL_DUP, SQLITE_ECEL_REF} else {SQLITE_ECEL_DUP}) P3);
         P5 = (if bSeq \<noteq> 0 then sqlite3VdbeAddOp2 OP_Sequence (iECursor pSort) (regBase + nExpr) P4
               else P4);
         P6 = (if nPrefixReg = 0 \<and> nData > 0
               then sqlite3ExprCodeMove regData (regBase + nExpr + bSeq) nData P5 else P5);
         P7 = sqlite3VdbeAddOp3 OP_MakeRecord (regBase + nOBSat pSort) (nBase - nOBSat pSort) regRecord P6;
         P8 = (if nOBSat pSort > 0 then P7\<lparr>notModelled := True\<rparr> else P7);
         P9 = sqlite3VdbeAddOp2 (if SORTFLAG_UseSorter pSort then OP_SorterInsert else OP_IdxInsert)
                (iECursor pSort) regRecord P8
     in if iLim \<noteq> 0 then
          let addr = sqlite3VdbeCurrentAddr P9;
              Pa = sqlite3VdbeAddOp1 OP_IfNotZero iLim P9;
              Pb = (if SORTFLAG_DESC pSort
                    then sqlite3VdbeAddOp2 OP_Rewind (iECursor pSort) (sqlite3VdbeCurrentAddr Pa + 1) Pa
                    else sqlite3VdbeAddOp1 OP_Last (iECursor pSort) Pa);
              (r1, Pc) = (if bOrderedInnerLoop pSort
                          then (nMem Pb + 1,
                                sqlite3VdbeAddOp3 OP_Column (iECursor pSort) nExpr (nMem Pb + 1)
                                  (Pb\<lparr>nMem := nMem Pb + 1\<rparr>))
                          else (0, Pb));
              Pd = sqlite3VdbeAddOp1 OP_Delete (iECursor pSort) Pc;
              Pe = (if bOrderedInnerLoop pSort
                    then sqlite3VdbeChangeP5 SQLITE_NULLEQ
                           (sqlite3VdbeAddOp3 OP_Eq (regBase + nExpr) (sqlite3VdbeCurrentAddr Pd + 2) r1 Pd)
                    else Pd)
          in (sqlite3VdbeJumpHere addr Pe, pSort1)
        else (P9, pSort1))"

text \<open>The loop of \<open>generateSortTail\<close> that reads the payload columns back: a result column
  that mirrors a sort-key column is read from that key column.\<close>

fun code_sort_columns :: "ExprList \<Rightarrow> int \<Rightarrow> int \<Rightarrow> int \<Rightarrow> Parse \<Rightarrow> Parse" where
  "code_sort_columns [] iSortTab iCol regRow P = P"
| "code_sort_columns (x # xs) iSortTab iCol regRow P =
     (if iOrderByCol x \<noteq> 0
      then code_sort_columns xs iSortTab iCol (regRow + 1)
             (sqlite3VdbeAddOp3 OP_Column iSortTab (int (iOrderByCol x) - 1) regRow P)
      else code_sort_columns xs iSortTab (iCol + 1) (regRow + 1)
             (sqlite3VdbeAddOp3 OP_Column iSortTab iCol regRow P))"

definition generateSortTail ::
  "Parse \<Rightarrow> select_fields \<Rightarrow> SortCtx \<Rightarrow> int \<Rightarrow> SelectDest \<Rightarrow> Parse" where
  "generateSortTail pParse p pSort nColumn pDest =
    (let addrBreak = labelDone pSort;
         (addrContinue, P1) = sqlite3VdbeMakeLabel pParse;
         P2 = (if labelBkOut pSort \<noteq> 0 then
                 sqlite3VdbeResolveLabel (labelBkOut pSort)
                   (sqlite3VdbeGoto addrBreak
                     (sqlite3VdbeAddOp2 OP_Gosub (sort_regReturn pSort) (labelBkOut pSort) P1))
               else P1);
         iTab = iECursor pSort;
         direct = (eDest pDest = SRT_Output \<or> eDest pDest = SRT_Coroutine \<or> eDest pDest = SRT_Mem);
         (regTupleid, regRow, P3) =
           (if direct then (0, iSdst pDest, P2)
            else let (a, Pa) = sqlite3GetTempReg P2; (b, Pb) = sqlite3GetTempRange nColumn Pa
                 in (a, b, Pb));
         nSortData = nColumn;
         nKey = int (length (the (sort_pOrderBy pSort))) - nOBSat pSort;
         (addr, iSortTab, bSeq, P4) =
           (if SORTFLAG_UseSorter pSort then
              let Pa = P3\<lparr>nMem := nMem P3 + 1\<rparr>;
                  regSortOut = nMem Pa;
                  iST = nTab Pa;
                  Pb = Pa\<lparr>nTab := nTab Pa + 1\<rparr>;
                  addrOnce = (if labelBkOut pSort \<noteq> 0 then sqlite3VdbeCurrentAddr Pb else 0);
                  Pc = (if labelBkOut pSort \<noteq> 0 then sqlite3VdbeAddOp0 OP_Once Pb else Pb);
                  Pd = sqlite3VdbeAddOp3 OP_OpenPseudo iST regSortOut (nKey + 1 + nSortData) Pc;
                  Pe = (if addrOnce \<noteq> 0 then sqlite3VdbeJumpHere addrOnce Pd else Pd);
                  ad = 1 + sqlite3VdbeCurrentAddr Pe;
                  Pf = sqlite3VdbeAddOp2 OP_SorterSort iTab addrBreak Pe;
                  Pg = codeOffset (iOffset p) addrContinue Pf;
                  Ph = sqlite3VdbeAddOp3 OP_SorterData iTab regSortOut iST Pg
              in (ad, iST, 0, Ph)
            else
              let ad = 1 + sqlite3VdbeCurrentAddr P3;
                  Pa = sqlite3VdbeAddOp2 (if SORTFLAG_DESC pSort then OP_Last else OP_Sort)
                         iTab addrBreak P3;
                  Pb = codeOffset (iOffset p) addrContinue Pa
              in (ad, iTab, 1, Pb));
         P5 = code_sort_columns (take (nat nSortData) (pEList p)) iSortTab (nKey + bSeq) regRow P4;
         P6 =
           (case eDest pDest of
              SRT_Table \<Rightarrow>
                let (regCopy, Pa) = sqlite3GetTempRange nColumn P5;
                    Pb = sqlite3VdbeAddOp3 OP_NextIdEphemeral (iSDParm pDest) nColumn regTupleid Pa;
                    Pc = sqlite3VdbeAddOp3 OP_Copy regRow regCopy (nSortData - 1) Pb;
                    Pd = sqlite3VdbeAddOp3 OP_MakeRecord regCopy (nColumn + 1) regRow Pc;
                    Pe = sqlite3VdbeAddOp2 OP_IdxInsert (iSDParm pDest) regRow Pd
                in sqlite3ReleaseTempReg regCopy Pe
            | SRT_EphemTab \<Rightarrow>
                let (regCopy, Pa) = sqlite3GetTempRange nColumn P5;
                    Pb = sqlite3VdbeAddOp3 OP_NextIdEphemeral (iSDParm pDest) nColumn regTupleid Pa;
                    Pc = sqlite3VdbeAddOp3 OP_Copy regRow regCopy (nSortData - 1) Pb;
                    Pd = sqlite3VdbeAddOp3 OP_MakeRecord regCopy (nColumn + 1) regRow Pc;
                    Pe = sqlite3VdbeAddOp2 OP_IdxInsert (iSDParm pDest) regRow Pd
                in sqlite3ReleaseTempReg regCopy Pe
            | SRT_Set \<Rightarrow>
                sqlite3VdbeAddOp2 OP_IdxInsert (iSDParm pDest) regTupleid
                  (sqlite3VdbeAddOp4 OP_MakeRecord regRow nColumn regTupleid
                     (case zAffSdst pDest of None \<Rightarrow> P4_NOTUSED | Some z \<Rightarrow> P4_STATIC z) P5)
            | SRT_Mem \<Rightarrow> P5
            | SRT_Output \<Rightarrow> sqlite3VdbeAddOp2 OP_ResultRow (iSdst pDest) nColumn P5
            | _ \<Rightarrow> sqlite3VdbeAddOp1 OP_Yield (iSDParm pDest) P5);
         P7 = (if regTupleid \<noteq> 0 then
                 sqlite3ReleaseTempReg regTupleid
                   (if eDest pDest = SRT_Set then sqlite3ReleaseTempRange regRow nColumn P6
                    else sqlite3ReleaseTempReg regRow P6)
               else P6);
         P8 = sqlite3VdbeResolveLabel addrContinue P7;
         P9 = (if SORTFLAG_UseSorter pSort then sqlite3VdbeAddOp2 OP_SorterNext iTab addr P8
               else sqlite3VdbeAddOp2 (if SORTFLAG_DESC pSort then OP_Prev else OP_Next) iTab addr P8);
         P10 = (if sort_regReturn pSort \<noteq> 0 then sqlite3VdbeAddOp1 OP_Return (sort_regReturn pSort) P9
                else P9)
     in sqlite3VdbeResolveLabel addrBreak P10)"


subsection \<open>The result router\<close>

text \<open>\<open>selectInnerLoop\<close>: OFFSET, the result columns, DISTINCT, the destination switch and
  the LIMIT test, in the order of the source.  The queue destinations of recursive queries
  are outside the model.\<close>

definition selectInnerLoop ::
  "Parse \<Rightarrow> select_fields \<Rightarrow> ExprList \<Rightarrow> int \<Rightarrow> SortCtx option \<Rightarrow> DistinctCtx option \<Rightarrow>
   SelectDest \<Rightarrow> int \<Rightarrow> int \<Rightarrow> Parse \<times> SelectDest \<times> SortCtx option" where
  "selectInnerLoop pParse p pEL srcTab pSort0 pDistinct pDest iCont iBrk =
    (let hasDistinct = (case pDistinct of None \<Rightarrow> WHERE_DISTINCT_NOOP | Some d \<Rightarrow> eTnctType d);
         pSort = (case pSort0 of None \<Rightarrow> None
                  | Some s \<Rightarrow> if sort_pOrderBy s = None then None else Some s);
         P1 = (if pSort = None \<and> hasDistinct = WHERE_DISTINCT_NOOP
               then codeOffset (iOffset p) iCont pParse else pParse);
         nPrefixReg0 = (case pSort of None \<Rightarrow> 0
                        | Some s \<Rightarrow> int (length (the (sort_pOrderBy s)))
                                    + (if SORTFLAG_UseSorter s then 0 else 1));
         (nPrefixReg, P2, d1) =
           (if iSdst pDest = 0 then
              let Pa = P1\<lparr>nMem := nMem P1 + nPrefixReg0\<rparr>;
                  d = pDest\<lparr>iSdst := nMem Pa + 1\<rparr>
              in (nPrefixReg0, Pa\<lparr>nMem := nMem Pa + int (length pEL)\<rparr>, d)
            else if iSdst pDest + int (length pEL) > nMem P1
              then (0, P1\<lparr>nMem := nMem P1 + int (length pEL)\<rparr>, pDest)
            else (0, P1, pDest));
         d2 = d1\<lparr>nSdst := int (length pEL)\<rparr>;
         regResult = iSdst d2;
         omit = (srcTab < 0 \<and> eDest pDest \<noteq> SRT_Exists \<and> pSort \<noteq> None
                 \<and> hasDistinct = WHERE_DISTINCT_NOOP
                 \<and> eDest pDest \<noteq> SRT_EphemTab \<and> eDest pDest \<noteq> SRT_Table);
         regOrig = (if omit then 0 else regResult);
         ecelFlags = (if eDest pDest = SRT_Mem \<or> eDest pDest = SRT_Output \<or> eDest pDest = SRT_Coroutine
                      then {SQLITE_ECEL_DUP} else {})
                     \<union> (if omit then {SQLITE_ECEL_OMITREF, SQLITE_ECEL_REF} else {});
         (nResultCol, P3) =
           (if srcTab \<ge> 0 then (int (length pEL), code_columns srcTab 0 (length pEL) regResult P2)
            else if eDest pDest \<noteq> SRT_Exists then sqlite3ExprCodeExprList pEL regResult 0 ecelFlags P2
            else (int (length pEL), P2));
         P4 =
           (if hasDistinct = WHERE_DISTINCT_NOOP then P3
            else
              let dctx = the pDistinct;
                  Pa =
                    (case hasDistinct of
                       WHERE_DISTINCT_ORDERED \<Rightarrow>
                         let regPrev = nMem P3 + 1;
                             Pb = P3\<lparr>nMem := nMem P3 + nResultCol\<rparr>;
                             Pc = change_op (addrTnct dctx)
                                    (\<lambda>x. x\<lparr>opcode := OP_Null, p1 := 1, p2 := regPrev, p3 := 0,
                                            p4 := P4_NOTUSED\<rparr>) Pb;
                             iJump = sqlite3VdbeCurrentAddr Pc + nResultCol;
                             Pd = code_distinct_ordered (take (nat nResultCol) pEL) 0 regResult regPrev
                                    iJump iCont Pc
                         in sqlite3VdbeAddOp3 OP_Copy regResult regPrev (nResultCol - 1) Pd
                     | WHERE_DISTINCT_UNIQUE \<Rightarrow>
                         change_op (addrTnct dctx)
                           (\<lambda>x. x\<lparr>opcode := OP_Noop, p4 := P4_NOTUSED\<rparr>) P3
                     | _ \<Rightarrow> codeDistinct (tabTnct dctx) iCont nResultCol regResult P3)
              in if pSort = None then codeOffset (iOffset p) iCont Pa else Pa);
         iParm = iSDParm pDest;
         push = (\<lambda>rd ro nd P.
                   case pSort of
                     None \<Rightarrow> (P, None)
                   | Some s \<Rightarrow> (let (Pz, sz) = pushOntoSorter P s p rd ro nd nPrefixReg
                               in (Pz, Some sz)));
         (P5, pSort1) =
           (case eDest pDest of
              SRT_Union \<Rightarrow>
                let (r1, Pa) = sqlite3GetTempReg P4;
                    Pb = sqlite3VdbeAddOp3 OP_MakeRecord regResult nResultCol r1 Pa;
                    Pc = sqlite3VdbeAddOp2 OP_IdxInsert iParm r1 Pb
                in (sqlite3ReleaseTempReg r1 Pc, pSort)
            | SRT_Except \<Rightarrow> (sqlite3VdbeAddOp3 OP_IdxDelete iParm regResult nResultCol P4, pSort)
            | SRT_Set \<Rightarrow>
                if pSort \<noteq> None then push regResult regOrig nResultCol P4
                else
                  let (r1, Pa) = sqlite3GetTempReg P4;
                      Pb = sqlite3VdbeAddOp4 OP_MakeRecord regResult nResultCol r1
                             (case zAffSdst pDest of None \<Rightarrow> P4_NOTUSED | Some z \<Rightarrow> P4_STATIC z) Pa;
                      Pc = sqlite3VdbeAddOp2 OP_IdxInsert iParm r1 Pb
                  in (sqlite3ReleaseTempReg r1 Pc, pSort)
            | SRT_Exists \<Rightarrow> (sqlite3VdbeAddOp2 OP_Integer 1 iParm P4, pSort)
            | SRT_Mem \<Rightarrow>
                if pSort \<noteq> None then push regResult regOrig nResultCol P4 else (P4, pSort)
            | SRT_Coroutine \<Rightarrow>
                if pSort \<noteq> None then push regResult regOrig nResultCol P4
                else (sqlite3VdbeAddOp1 OP_Yield (iSDParm pDest) P4, pSort)
            | SRT_Output \<Rightarrow>
                if pSort \<noteq> None then push regResult regOrig nResultCol P4
                else (sqlite3VdbeAddOp2 OP_ResultRow regResult nResultCol P4, pSort)
            | SRT_Discard \<Rightarrow> (P4, pSort)
            | SRT_Queue \<Rightarrow> (P4\<lparr>notModelled := True\<rparr>, pSort)
            | SRT_DistQueue \<Rightarrow> (P4\<lparr>notModelled := True\<rparr>, pSort)
            | _ \<Rightarrow>
                let (r1, Pa) = sqlite3GetTempRange (nPrefixReg + 1) P4;
                    Pb = sqlite3VdbeAddOp3 OP_MakeRecord regResult nResultCol (r1 + nPrefixReg) Pa;
                    Pc = sqlite3VdbeChangeP5 1 Pb;
                    Pd = (if eDest pDest = SRT_DistFifo then
                            let addr = sqlite3VdbeCurrentAddr Pc + 6;
                                Pe = sqlite3VdbeAddOp4Int OP_Found (iParm + 1) addr r1 0 Pc
                            in sqlite3VdbeAddOp2 OP_IdxInsert (iParm + 1) r1 Pe
                          else Pc);
                    (Pf, so) =
                      (if pSort \<noteq> None then push (r1 + nPrefixReg) regResult 1 Pd
                       else
                         let (regRec, Pg) = sqlite3GetTempReg Pd;
                             (regCopy, Ph) = sqlite3GetTempRange (nResultCol + 1) Pg;
                             Pi = sqlite3VdbeAddOp3 OP_NextIdEphemeral iParm nResultCol
                                    (regCopy + nResultCol) Ph;
                             Pj = sqlite3VdbeAddOp3 OP_Copy regResult regCopy (nResultCol - 1) Pi;
                             Pk = sqlite3VdbeAddOp3 OP_MakeRecord regCopy (nResultCol + 1) regRec Pj;
                             Pl = sqlite3VdbeChangeP5 1 Pk;
                             Pm = sqlite3VdbeAddOp2 OP_IdxInsert iParm regRec Pl;
                             Pn = sqlite3ReleaseTempReg regRec Pm
                         in (sqlite3ReleaseTempRange regCopy (nResultCol + 1) Pn, pSort))
                in (sqlite3ReleaseTempRange r1 (nPrefixReg + 1) Pf, so));
         P6 = (if pSort = None \<and> iLimit p \<noteq> 0
               then sqlite3VdbeAddOp2 OP_DecrJumpZero (iLimit p) iBrk P5 else P5)
     in (P6, d2, pSort1))"


subsection \<open>Aggregates\<close>

definition expr_items :: "Expr list \<Rightarrow> ExprList" where
  "expr_items es = map (\<lambda>e. \<lparr>pExpr = e, item_order = SORT_ORDER_ASC, iOrderByCol = 0\<rparr>) es"

definition msg_distinct_agg :: string where
  "msg_distinct_agg = ''DISTINCT aggregates must have exactly one argument''"

text \<open>The loop of \<open>resetAccumulator\<close> over the aggregate function calls.\<close>

fun reset_funcs :: "AggInfo_func list \<Rightarrow> Parse \<Rightarrow> Parse \<times> AggInfo_func list" where
  "reset_funcs [] P = (P, [])"
| "reset_funcs (pFunc # rest) P =
     (let (P1, f1) =
            (if iDistinct pFunc \<ge> 0 then
               (case x_pList (func_pExpr pFunc) of
                  None \<Rightarrow> (sqlite3ErrorMsg msg_distinct_agg P, pFunc\<lparr>iDistinct := -1\<rparr>)
                | Some l \<Rightarrow>
                    if length l \<noteq> 1
                    then (sqlite3ErrorMsg msg_distinct_agg P, pFunc\<lparr>iDistinct := -1\<rparr>)
                    else (sqlite3VdbeAddOp4 OP_OpenTEphemeral (iDistinct pFunc) 1 0
                            (P4_KEYDEF (sql_expr_list_to_key_def (expr_items l) 0)) P, pFunc))
             else (P, pFunc));
          (P2, fs) = reset_funcs rest P1
      in (P2, f1 # fs))"

definition resetAccumulator :: "Parse \<Rightarrow> AggInfo \<Rightarrow> Parse \<times> AggInfo" where
  "resetAccumulator pParse ai =
     (if length (aFunc ai) + length (aCol ai) = 0 then (pParse, ai)
      else
        let P1 = sqlite3VdbeAddOp3 OP_Null 0 (mnReg ai) (mxReg ai) pParse;
            (P2, fs) = reset_funcs (aFunc ai) P1
        in (P2, ai\<lparr>aFunc := fs\<rparr>))"

text \<open>\<open>is_simple_count\<close>: the query is \<open>SELECT count(*) FROM <tbl>\<close>; the result is the
  space of the table.\<close>

definition is_simple_count :: "select_fields \<Rightarrow> SrcList_item list \<Rightarrow> AggInfo \<Rightarrow> nat option" where
  "is_simple_count select src agg_info =
     (if pWhere select \<noteq> None \<or> length (pEList select) \<noteq> 1 \<or> length src \<noteq> 1
         \<or> pSelect (src ! 0) \<noteq> None
      then None
      else
        let space = space_id (sif (src ! 0));
            expr = pExpr (pEList select ! 0)
        in if eop expr \<noteq> TK_AGG_FUNCTION then None
           else if aFunc agg_info = [] then None
           else if SQLITE_FUNC_COUNT \<notin> funcFlags (aFunc agg_info ! 0) then None
           else if EP_Distinct \<in> eflags expr then None
           else Some space)"

definition explain_simple_count :: "string \<Rightarrow> Parse \<Rightarrow> Parse" where
  "explain_simple_count table_name P =
     (if explain P = 2
      then sqlite3VdbeAddOp4 OP_Explain (iSelectId P) 0 0 (P4_DYNAMIC (''B+tree count '' @ table_name)) P
      else P)"

definition explainTempTable :: "string \<Rightarrow> Parse \<Rightarrow> Parse" where
  "explainTempTable zUsage P =
     (if explain P = 2
      then sqlite3VdbeAddOp4 OP_Explain (iSelectId P) 0 0 (P4_DYNAMIC (''USE TEMP B-TREE FOR '' @ zUsage)) P
      else P)"

text \<open>Modelled from the spec: the aggregate analysis pass of expr.c is not among the
  sources.  It is "a single analysis pass over the result list" that records every
  aggregate function call with a fresh accumulator register and, for a DISTINCT call, a
  fresh cursor.  The model covers calls at the top of a result column; the only function
  whose flags matter here is the argument-free \<open>count\<close>.\<close>

definition sqlite3FindFunction :: "string \<Rightarrow> nat \<Rightarrow> func_flag set" where
  "sqlite3FindFunction name nArg =
     (if (name = ''count'' \<or> name = ''COUNT'') \<and> nArg = 0 then {SQLITE_FUNC_COUNT}
      else if name = ''min'' \<or> name = ''max'' \<or> name = ''MIN'' \<or> name = ''MAX''
        then {SQLITE_FUNC_MINMAX, SQLITE_FUNC_NEEDCOLL}
      else {})"

fun set_iAgg :: "int \<Rightarrow> Expr \<Rightarrow> Expr" where
  "set_iAgg n (Expr c fl v z t k l xs cl ag) = Expr c fl v z t k l xs cl n"

fun sqlite3ExprAnalyzeAggList :: "ExprList \<Rightarrow> Parse \<Rightarrow> AggInfo \<Rightarrow> ExprList \<times> Parse \<times> AggInfo" where
  "sqlite3ExprAnalyzeAggList [] P ai = ([], P, ai)"
| "sqlite3ExprAnalyzeAggList (x # xs) P ai =
     (let e = pExpr x;
          (x1, P1, ai1) =
            (if eop e = TK_AGG_FUNCTION then
               let nArg = (case x_pList e of None \<Rightarrow> 0 | Some l \<Rightarrow> length l);
                   Pa = P\<lparr>nMem := nMem P + 1\<rparr>;
                   (iD, Pb) = (if EP_Distinct \<in> eflags e then (nTab Pa, Pa\<lparr>nTab := nTab Pa + 1\<rparr>)
                               else (-1, Pa));
                   Pc = (if nArg \<noteq> 0 then Pb\<lparr>notModelled := True\<rparr> else Pb);
                   fn = \<lparr>func_pExpr = e, funcFlags = sqlite3FindFunction (zToken e) nArg,
                         func_iMem = nMem Pa, iDistinct = iD\<rparr>
               in (x\<lparr>pExpr := set_iAgg (int (length (aFunc ai))) e\<rparr>, Pc, ai\<lparr>aFunc := aFunc ai @ [fn]\<rparr>)
             else if sqlite3ExprIsInteger e \<noteq> None \<or> eop e = TK_NULL then (x, P, ai)
             else (x, P\<lparr>notModelled := True\<rparr>, ai));
          (xs1, P2, ai2) = sqlite3ExprAnalyzeAggList xs P1 ai1
      in (x1 # xs1, P2, ai2))"

subsection \<open>The single-row check\<close>

definition msg_multiple_rows :: string where
  "msg_multiple_rows = ''SQL error: Expression subquery returned more than 1 row''"

definition vdbe_code_raise_on_multiple_rows :: "Parse \<Rightarrow> int \<Rightarrow> int \<Rightarrow> Parse" where
  "vdbe_code_raise_on_multiple_rows parser limit_reg end_mark =
     (let (r1, P1) = sqlite3GetTempReg parser;
          P2 = sqlite3VdbeAddOp2 OP_Integer 0 r1 P1;
          P3 = sqlite3VdbeAddOp3 OP_Ne r1 end_mark limit_reg P2;
          P4 = sqlite3VdbeAddOp4 OP_Halt SQL_TARANTOOL_ERROR 0 0 (P4_STATIC msg_multiple_rows) P3;
          P5 = sqlite3VdbeChangeP5 ER_SQL_EXECUTE P4
      in sqlite3ReleaseTempReg r1 P5)"

subsection \<open>A query that is not compound\<close>

definition IgnorableOrderby :: "SelectDest \<Rightarrow> bool" where
  "IgnorableOrderby d =
     (eDest d \<in> {SRT_Union, SRT_Except, SRT_Exists, SRT_Discard, SRT_Fifo, SRT_DistFifo,
                  SRT_Queue, SRT_DistQueue})"

text \<open>\<open>generateColumnNames\<close> only records the names of the result columns; it emits no
  instruction.\<close>

definition generateColumnNames :: "Parse \<Rightarrow> Parse" where
  "generateColumnNames P = P"

definition no_sort :: SortCtx where
  "no_sort = \<lparr>sort_pOrderBy = None, nOBSat = 0, iECursor = 0, sort_regReturn = 0, labelBkOut = 0,
              addrSortIndex = -1, labelDone = 0, SORTFLAG_UseSorter = False, SORTFLAG_DESC = False,
              bOrderedInnerLoop = False\<rparr>"

text \<open>The aggregate branch of \<open>sqlite3Select\<close> for a query without GROUP BY: the direct
  count of \<open>is_simple_count\<close>, or accumulator reset, scan, update and finalization.  The
  accumulator update and finalization, HAVING and GROUP BY are outside the model.\<close>

definition select_aggregate ::
  "Parse \<Rightarrow> select_fields \<Rightarrow> SrcList_item list \<Rightarrow> SelectDest \<Rightarrow> Parse \<times> select_fields \<times> SelectDest" where
  "select_aggregate pParse p0 pTabList pDest =
    (let p1 = p0\<lparr>nSelectRow := (if pGroupBy p0 \<noteq> None then min 66 (nSelectRow p0) else 0)\<rparr>;
         (addrEnd, P1) = sqlite3VdbeMakeLabel pParse;
         ai0 = \<lparr>aCol = [], aFunc = [], nAccumulator = 0, mnReg = nMem P1 + 1, mxReg = 0\<rparr>;
         (el, P2, ai1) = sqlite3ExprAnalyzeAggList (pEList p1) P1 ai0;
         P3 = (if pHaving p1 \<noteq> None \<or> pGroupBy p1 \<noteq> None then P2\<lparr>notModelled := True\<rparr> else P2);
         ai2 = ai1\<lparr>nAccumulator := length (aCol ai1), mxReg := nMem P3\<rparr>;
         p2 = p1\<lparr>pEList := el\<rparr>;
         P4 = P3\<lparr>pAggInfo := Some ai2\<rparr>;
         P5 =
           (case is_simple_count p2 pTabList ai2 of
              Some space \<Rightarrow>
                let cursor = nTab P4;
                    Pa = P4\<lparr>nTab := nTab P4 + 1\<rparr>;
                    Pb = vdbe_emit_open_cursor cursor 0 space Pa;
                    Pc = sqlite3VdbeAddOp2 OP_Count cursor (func_iMem (aFunc ai2 ! 0)) Pb;
                    Pd = sqlite3VdbeAddOp1 OP_Close cursor Pc
                in explain_simple_count (zName (sif (pTabList ! 0))) Pd
            | None \<Rightarrow>
                let (Pa, ai3) = resetAccumulator P4 ai2;
                    (Pb, w) = sqlite3WhereBegin (Pa\<lparr>pAggInfo := Some ai3\<rparr>) pTabList (pWhere p2);
                    Pc = Pb\<lparr>notModelled := True\<rparr>
                in sqlite3WhereEnd w Pc);
         (P6, d, so) = selectInnerLoop P5 p2 (pEList p2) (-1) None None pDest addrEnd addrEnd
     in (sqlite3VdbeResolveLabel addrEnd P6, p2, d))"

text \<open>\<open>sqlite3Select\<close> on a query with no prior term, after the identifier bookkeeping and
  the error test at its head.  Subqueries in the FROM clause (flattening, coroutines and
  materialization) are not part of this function; a query that has one is marked.\<close>

definition sqlite3Select_simple ::
  "Parse \<Rightarrow> int \<Rightarrow> select_fields \<Rightarrow> SrcList_item list \<Rightarrow> SelectDest \<Rightarrow>
   int \<times> Parse \<times> select_fields \<times> SelectDest" where
  "sqlite3Select_simple pParse iRestoreSelectId p0 pTabList pDest =
    (let isAgg = (SF_Aggregate \<in> selFlags p0);
         Pa = (if list_ex (\<lambda>it. pSelect it \<noteq> None) pTabList then pParse\<lparr>notModelled := True\<rparr>
               else pParse);
         Pb = (if SF_Distinct \<in> selFlags p0 \<and> \<not> isAgg \<and> pOrderBy p0 \<noteq> None
               then Pa\<lparr>notModelled := True\<rparr> else Pa);
         (sSort0, Pc) =
           (case pOrderBy p0 of
              Some ob \<Rightarrow>
                let def = sql_expr_list_to_key_def ob 0;
                    cur = nTab Pb;
                    P1 = Pb\<lparr>nTab := nTab Pb + 1\<rparr>;
                    nCols = int (length (pEList p0)) + int (length ob) + 1;
                    addr = sqlite3VdbeCurrentAddr P1
                in (no_sort\<lparr>sort_pOrderBy := Some ob, iECursor := cur, addrSortIndex := addr,
                           SORTFLAG_DESC := (def \<noteq> [] \<and> part_order (hd def) = SORT_ORDER_DESC)\<rparr>,
                    sqlite3VdbeAddOp4 OP_OpenTEphemeral cur nCols 0 (P4_KEYDEF def) P1)
            | None \<Rightarrow> (no_sort, Pb));
         Pd = (if eDest pDest = SRT_EphemTab
               then sqlite3VdbeAddOp2 OP_OpenTEphemeral (iSDParm pDest) (int (length (pEList p0)) + 1) Pc
               else Pc);
         (iEnd, Pe) = sqlite3VdbeMakeLabel Pd;
         p1 = (if SF_FixedLimit \<notin> selFlags p0 then p0\<lparr>nSelectRow := 320\<rparr> else p0);
         (Pf, p2) = computeLimitRegisters Pe p1 iEnd;
         (sSort1, Pg) =
           (if iLimit p2 = 0 \<and> addrSortIndex sSort0 \<ge> 0
            then (sSort0\<lparr>SORTFLAG_UseSorter := True\<rparr>,
                  change_op (addrSortIndex sSort0) (\<lambda>x. x\<lparr>opcode := OP_SorterOpen\<rparr>) Pf)
            else (sSort0, Pf));
         (sDistinct, Ph) =
           (if SF_Distinct \<in> selFlags p2 then
              let tab = nTab Pg;
                  P1 = Pg\<lparr>nTab := nTab Pg + 1\<rparr>;
                  def = sql_expr_list_to_key_def (pEList p2) 0
              in (\<lparr>isTnct = (SF_Distinct \<in> selFlags p0), eTnctType = WHERE_DISTINCT_UNORDERED,
                   tabTnct = tab, addrTnct = sqlite3VdbeCurrentAddr P1\<rparr>,
                  sqlite3VdbeAddOp4 OP_OpenTEphemeral tab (int (length def)) 0 (P4_KEYDEF def) P1)
            else (\<lparr>isTnct = (SF_Distinct \<in> selFlags p0), eTnctType = WHERE_DISTINCT_NOOP,
                   tabTnct = 0, addrTnct = 0\<rparr>, Pg));
         (Pi, p3, d3, sSort2) =
           (if \<not> isAgg \<and> pGroupBy p2 = None then
              let (Pw, w) = sqlite3WhereBegin Ph pTabList (pWhere p2);
                  (Px, d, so) = selectInnerLoop Pw p2 (pEList p2) (-1) (Some sSort1) (Some sDistinct)
                                  pDest (sqlite3WhereContinueLabel w) (sqlite3WhereBreakLabel w)
              in (sqlite3WhereEnd w Px, p2, d, (case so of None \<Rightarrow> sSort1 | Some s \<Rightarrow> s))
            else
              let (Px, p, d) = select_aggregate Ph p2 pTabList pDest
              in (Px, p, d, sSort1\<lparr>sort_pOrderBy := None\<rparr>));
         Pj = (if eTnctType sDistinct = WHERE_DISTINCT_UNORDERED then explainTempTable ''DISTINCT'' Pi
               else Pi);
         Pk = (if sort_pOrderBy sSort2 \<noteq> None then
                 generateSortTail
                   (explainTempTable (if nOBSat sSort2 > 0 then ''RIGHT PART OF ORDER BY'' else ''ORDER BY'') Pj)
                   p3 sSort2 (int (length (pEList p3))) d3
               else Pj);
         Pl = (if SF_SingleRow \<in> selFlags p3 \<and> iLimit p3 \<noteq> 0
               then vdbe_code_raise_on_multiple_rows Pk (iLimit p3) iEnd else Pk);
         Pm = sqlite3VdbeResolveLabel iEnd Pl;
         rc = (if nErr Pm > 0 then 1 else 0);
         Pn = Pm\<lparr>iSelectId := iRestoreSelectId\<rparr>;
         Po = (if rc = 0 \<and> eDest pDest = SRT_Output then generateColumnNames Pn else Pn)
     in (rc, Po, p3, d3))"


subsection \<open>Building trees\<close>

text \<open>\<open>sqlite3Expr\<close> allocates an expression node with the given operator and nothing
  else; an integer literal carries \<open>EP_IntValue\<close> and its value; a column reference names
  a cursor and a column.\<close>

definition sqlite3Expr :: "token \<Rightarrow> Expr" where
  "sqlite3Expr c = Expr c {} 0 [] 0 0 None None None 0"

definition expr_integer :: "int \<Rightarrow> Expr" where
  "expr_integer n = Expr TK_INTEGER {EP_IntValue} n [] 0 0 None None None 0"

definition expr_column :: "int \<Rightarrow> int \<Rightarrow> Expr" where
  "expr_column t c = Expr TK_COLUMN {} 0 [] t c None None None 0"

definition expr_item :: "Expr \<Rightarrow> ExprList_item" where
  "expr_item e = \<lparr>pExpr = e, item_order = SORT_ORDER_ASC, iOrderByCol = 0\<rparr>"

text \<open>\<open>sqlite3SelectNew\<close>: a fresh query node; an absent result list is the list
  \<open>[*]\<close>.\<close>

definition sqlite3SelectNew ::
  "ExprList option \<Rightarrow> SrcList_item list \<Rightarrow> Expr option \<Rightarrow> ExprList option \<Rightarrow> Expr option \<Rightarrow>
   ExprList option \<Rightarrow> sel_flag set \<Rightarrow> Expr option \<Rightarrow> Expr option \<Rightarrow> Select" where
  "sqlite3SelectNew pEL src pWh pGrp pHav pOrd flags pLim pOff =
     Select
       \<lparr>pEList = (case pEL of None \<Rightarrow> [expr_item (sqlite3Expr TK_ASTERISK)] | Some l \<Rightarrow> l),
        op = TK_SELECT, selFlags = flags, iLimit = 0, iOffset = 0, addrOpenEphm = (-1, -1),
        nSelectRow = 0, pWhere = pWh, pGroupBy = pGrp, pHaving = pHav, pOrderBy = pOrd,
        pLimit = pLim, pOffset = pOff\<rparr>
       src None"

text \<open>A FROM-clause entry for a base table, and the table scan \<open>SELECT c0, ..., c(n-1) FROM t\<close>
  of all \<open>n\<close> columns of the table behind cursor \<open>cur\<close>.\<close>

definition src_table :: "string \<Rightarrow> nat \<Rightarrow> nat \<Rightarrow> int \<Rightarrow> SrcList_item" where
  "src_table name sp n cur =
     SrcList_item
       \<lparr>zName = name, space_id = sp, field_count = n, iCursor = cur, jointype = {},
        isCorrelated = False, viaCoroutine = False, isRecursive = False, addrFillSub = 0,
        regReturn = 0, regResult = 0\<rparr>
       None"

fun columns_from :: "int \<Rightarrow> nat \<Rightarrow> nat \<Rightarrow> ExprList" where
  "columns_from cur i 0 = []"
| "columns_from cur i (Suc n) = expr_item (expr_column cur (int i)) # columns_from cur (Suc i) n"

definition table_columns :: "int \<Rightarrow> nat \<Rightarrow> ExprList" where
  "table_columns cur n = columns_from cur 0 n"

definition select_table :: "string \<Rightarrow> nat \<Rightarrow> nat \<Rightarrow> int \<Rightarrow> Select" where
  "select_table name sp n cur =
     sqlite3SelectNew (Some (table_columns cur n)) [src_table name sp n cur]
       None None None None {} None None"

text \<open>The parsing context before any code is generated; \<open>n\<close> cursors are already taken by
  the FROM clauses.\<close>

definition parse_init :: "int \<Rightarrow> Parse" where
  "parse_init n =
     \<lparr>aOp = [], aLabel = [], nMem = 0, nTab = n, aTempReg = [], aColCache = [], nErr = 0,
      zErrMsg = [], mallocFailed = False, iSelectId = 0, iNextSelectId = 0, explain = 0,
      pAggInfo = None, notModelled = False\<rparr>"


subsection \<open>Compound queries\<close>

definition selectOpName :: "token \<Rightarrow> string" where
  "selectOpName c =
     (if c = TK_ALL then ''UNION ALL'' else if c = TK_INTERSECT then ''INTERSECT''
      else if c = TK_EXCEPT then ''EXCEPT'' else ''UNION'')"

definition explainComposite :: "token \<Rightarrow> int \<Rightarrow> int \<Rightarrow> bool \<Rightarrow> Parse \<Rightarrow> Parse" where
  "explainComposite c iSub1 iSub2 bUseTmp P =
     (if explain P = 2
      then sqlite3VdbeAddOp4 OP_Explain (iSelectId P) 0 0
             (P4_DYNAMIC (''COMPOUND SUBQUERIES '' @ (if bUseTmp then ''USING TEMP B-TREE '' else [])
                @ ''('' @ selectOpName c @ '')'')) P
      else P)"

definition sqlite3VdbeEndCoroutine :: "int \<Rightarrow> Parse \<Rightarrow> Parse" where
  "sqlite3VdbeEndCoroutine regYield P =
     sqlite3ClearTempRegCache (sqlite3VdbeAddOp1 OP_EndCoroutine regYield P)"

text \<open>The collation of result column \<open>n\<close> of a compound: that of the left-most term that
  has one.\<close>

fun multi_select_coll_seq_r :: "Select \<Rightarrow> nat \<Rightarrow> bool \<times> nat option" where
  "multi_select_coll_seq_r (Select f src pr) n =
     (let (found, c) = (case pr of None \<Rightarrow> (False, None)
                        | Some q \<Rightarrow> multi_select_coll_seq_r q n)
      in if \<not> found \<and> n < length (pEList f) then sql_expr_coll (pExpr (pEList f ! n))
         else (found, c))"

definition multi_select_coll_seq :: "Select \<Rightarrow> nat \<Rightarrow> nat option" where
  "multi_select_coll_seq p n = snd (multi_select_coll_seq_r p n)"

fun set_coll :: "nat option \<Rightarrow> Expr \<Rightarrow> Expr" where
  "set_coll cl' (Expr c fl v z t k l xs cl ag) = Expr c (insert EP_Collate fl) v z t k l xs cl' ag"

text \<open>\<open>sql_multiselect_orderby_to_key_def\<close>: one key part per ORDER BY term; a term without
  an explicit collation gets the collation of the result column it mirrors (the binary
  collation, id 0, when there is none) attached.\<close>

definition sql_multiselect_orderby_to_key_def :: "Select \<Rightarrow> ExprList \<Rightarrow> key_def \<times> ExprList" where
  "sql_multiselect_orderby_to_key_def s order_by =
     (map (\<lambda>i. let item = order_by ! i; term = pExpr item
                in \<lparr>fieldno = i,
                    coll_id = (if EP_Collate \<in> eflags term then snd (sql_expr_coll term)
                               else multi_select_coll_seq s (iOrderByCol item - 1)),
                    part_order = item_order item\<rparr>) [0..<length order_by],
      map (\<lambda>item. let term = pExpr item
                   in if EP_Collate \<in> eflags term then item
                      else item\<lparr>pExpr := set_coll
                             (case multi_select_coll_seq s (iOrderByCol item - 1) of
                                None \<Rightarrow> Some 0 | Some c \<Rightarrow> Some c) term\<rparr>) order_by)"

text \<open>The loop of \<open>multiSelectOrderBy\<close> that makes the ORDER BY clause cover every result
  column: column \<open>i\<close> (counted from one) is appended as the integer literal \<open>i\<close> unless a term
  already mirrors it.\<close>

fun extend_orderby :: "nat \<Rightarrow> nat \<Rightarrow> ExprList \<Rightarrow> ExprList" where
  "extend_orderby i 0 ob = ob"
| "extend_orderby i (Suc n) ob =
     extend_orderby (Suc i) n
       (if list_ex (\<lambda>it. iOrderByCol it = i) ob then ob
        else ob @ [\<lparr>pExpr = expr_integer (int i), item_order = SORT_ORDER_ASC, iOrderByCol = i\<rparr>])"

text \<open>Modelled from the spec: resolve.c is not among the sources.  \<open>sqlite3ResolveOrderGroupBy\<close>
  replaces an ORDER BY term that mirrors result column \<open>j\<close> by a copy of that column's
  expression, keeping the collation attached to the term.\<close>

definition sqlite3ResolveOrderGroupBy :: "ExprList \<Rightarrow> ExprList \<Rightarrow> ExprList" where
  "sqlite3ResolveOrderGroupBy el ob =
     map (\<lambda>item. if 0 < iOrderByCol item \<and> iOrderByCol item \<le> length el
                  then item\<lparr>pExpr := set_coll (pColl (pExpr item))
                                       (pExpr (el ! (iOrderByCol item - 1)))\<rparr>
                  else item) ob"

text \<open>\<open>generateOutputSubroutine\<close>: duplicate suppression against the previous row, OFFSET,
  the destination switch, LIMIT and the return.\<close>

definition generateOutputSubroutine ::
  "Parse \<Rightarrow> select_fields \<Rightarrow> SelectDest \<Rightarrow> SelectDest \<Rightarrow> int \<Rightarrow> int \<Rightarrow> key_def \<Rightarrow> int \<Rightarrow>
   int \<times> Parse \<times> SelectDest" where
  "generateOutputSubroutine parse p pIn dest reg_ret reg_prev def break_addr =
    (let addr = sqlite3VdbeCurrentAddr parse;
         (iCont, P1) = sqlite3VdbeMakeLabel parse;
         P2 = (if reg_prev \<noteq> 0 then
                 let addr1 = sqlite3VdbeCurrentAddr P1;
                     Pa = sqlite3VdbeAddOp1 OP_IfNot reg_prev P1;
                     addr2 = sqlite3VdbeCurrentAddr Pa;
                     Pb = sqlite3VdbeAddOp4 OP_Compare (iSdst pIn) (reg_prev + 1) (nSdst pIn)
                            (P4_KEYDEF def) Pa;
                     Pc = sqlite3VdbeAddOp3 OP_Jump (addr2 + 2) iCont (addr2 + 2) Pb;
                     Pd = sqlite3VdbeJumpHere addr1 Pc;
                     Pe = sqlite3VdbeAddOp3 OP_Copy (iSdst pIn) (reg_prev + 1) (nSdst pIn - 1) Pd
                 in sqlite3VdbeAddOp2 OP_Integer 1 reg_prev Pe
               else P1)
     in if mallocFailed P2 then (0, P2, dest)
        else
          let P3 = codeOffset (iOffset p) iCont P2;
              (P4, dest1) =
                (case eDest dest of
                   SRT_EphemTab \<Rightarrow>
                     let (regRec, Pa) = sqlite3GetTempReg P3;
                         (regCopy, Pb) = sqlite3GetTempRange (nSdst pIn + 1) Pa;
                         Pc = sqlite3VdbeAddOp3 OP_NextIdEphemeral (iSDParm dest) (nSdst pIn)
                                (regCopy + nSdst pIn) Pb;
                         Pd = sqlite3VdbeAddOp3 OP_Copy (iSdst pIn) regCopy (nSdst pIn - 1) Pc;
                         Pe = sqlite3VdbeAddOp3 OP_MakeRecord regCopy (nSdst pIn + 1) regRec Pd;
                         Pf = sqlite3VdbeChangeP5 1 Pe;
                         Pg = sqlite3VdbeAddOp2 OP_IdxInsert (iSDParm dest) regRec Pf;
                         Ph = sqlite3ReleaseTempRange regCopy (nSdst pIn + 1) Pg
                     in (sqlite3ReleaseTempReg regRec Ph, dest)
                 | SRT_Set \<Rightarrow>
                     let (r1, Pa) = sqlite3GetTempReg P3;
                         Pb = sqlite3VdbeAddOp4 OP_MakeRecord (iSdst pIn) (nSdst pIn) r1
                                (case zAffSdst dest of None \<Rightarrow> P4_NOTUSED | Some z \<Rightarrow> P4_STATIC z) Pa;
                         Pc = sqlite3VdbeAddOp2 OP_IdxInsert (iSDParm dest) r1 Pb
                     in (sqlite3ReleaseTempReg r1 Pc, dest)
                 | SRT_Mem \<Rightarrow> (sqlite3ExprCodeMove (iSdst pIn) (iSDParm dest) 1 P3, dest)
                 | SRT_Coroutine \<Rightarrow>
                     let (Pa, d) = (if iSdst dest = 0 then
                                      let (r, Pz) = sqlite3GetTempRange (nSdst pIn) P3
                                      in (Pz, dest\<lparr>iSdst := r, nSdst := nSdst pIn\<rparr>)
                                    else (P3, dest));
                         Pb = sqlite3ExprCodeMove (iSdst pIn) (iSdst d) (nSdst pIn) Pa
                     in (sqlite3VdbeAddOp1 OP_Yield (iSDParm d) Pb, d)
                 | _ \<Rightarrow> (sqlite3VdbeAddOp2 OP_ResultRow (iSdst pIn) (nSdst pIn) P3, dest));
              P5 = (if iLimit p \<noteq> 0 then sqlite3VdbeAddOp2 OP_DecrJumpZero (iLimit p) break_addr P4
                    else P4);
              P6 = sqlite3VdbeResolveLabel iCont P5;
              P7 = sqlite3VdbeAddOp1 OP_Return reg_ret P6
          in (addr, P7, dest1))"

text \<open>The control logic of \<open>multiSelectOrderBy\<close> after the two coroutines: the output
  subroutines, the end-of-input handlers, the three comparison handlers, the
  initialization and the comparison itself.\<close>

record merge_addrs =
  addrOutA :: int
  addrOutB :: int
  addrEofA :: int
  addrEofA_noB :: int
  addrEofB :: int
  addrAltB :: int
  addrAeqB :: int
  addrAgtB :: int

definition merge_driver ::
  "Parse \<Rightarrow> token \<Rightarrow> select_fields \<Rightarrow> int \<Rightarrow> SelectDest \<Rightarrow> SelectDest \<Rightarrow> SelectDest \<Rightarrow>
   int \<Rightarrow> int \<Rightarrow> int \<Rightarrow> int \<Rightarrow> int \<Rightarrow> key_def \<Rightarrow> key_def \<Rightarrow> int list \<Rightarrow> int \<Rightarrow> int \<Rightarrow> int \<Rightarrow> int \<Rightarrow>
   Parse \<times> select_fields \<times> SelectDest \<times> merge_addrs" where
  "merge_driver pParse c p priorRows destA destB pDest regAddrA regAddrB regOutA regOutB regPrev
                def_dup def_merge aPerm nOrderBy labelCmpr labelEnd addr1 =
    (let (aOutA, P1, pDest1) =
           generateOutputSubroutine pParse p destA pDest regOutA regPrev def_dup labelEnd;
         (aOutB, P2, pDest2) =
           (if c = TK_ALL \<or> c = TK_UNION
            then generateOutputSubroutine P1 p destB pDest1 regOutB regPrev def_dup labelEnd
            else (0, P1, pDest1));
         (aEofA, aEofA_noB, P3, p1) =
           (if c = TK_EXCEPT \<or> c = TK_INTERSECT then (labelEnd, labelEnd, P2, p)
            else
              let a = sqlite3VdbeCurrentAddr P2;
                  Pa = sqlite3VdbeAddOp2 OP_Gosub regOutB aOutB P2;
                  b = sqlite3VdbeCurrentAddr Pa;
                  Pb = sqlite3VdbeAddOp2 OP_Yield regAddrB labelEnd Pa
              in (a, b, sqlite3VdbeGoto a Pb,
                  p\<lparr>nSelectRow := sqlite3LogEstAdd (nSelectRow p) priorRows\<rparr>));
         (aEofB, P4, p2) =
           (if c = TK_INTERSECT
            then (aEofA, P3, if nSelectRow p1 > priorRows then p1\<lparr>nSelectRow := priorRows\<rparr> else p1)
            else
              let a = sqlite3VdbeCurrentAddr P3;
                  Pa = sqlite3VdbeAddOp2 OP_Gosub regOutA aOutA P3;
                  Pb = sqlite3VdbeAddOp2 OP_Yield regAddrA labelEnd Pa
              in (a, sqlite3VdbeGoto a Pb, p1));
         aAltB0 = sqlite3VdbeCurrentAddr P4;
         P5 = sqlite3VdbeGoto labelCmpr
                (sqlite3VdbeAddOp2 OP_Yield regAddrA aEofA
                  (sqlite3VdbeAddOp2 OP_Gosub regOutA aOutA P4));
         (aAeqB, aAltB, P6) =
           (if c = TK_ALL then (aAltB0, aAltB0, P5)
            else if c = TK_INTERSECT then (aAltB0, aAltB0 + 1, P5)
            else
              let a = sqlite3VdbeCurrentAddr P5;
                  Pa = sqlite3VdbeAddOp2 OP_Yield regAddrA aEofA P5
              in (a, aAltB0, sqlite3VdbeGoto labelCmpr Pa));
         aAgtB = sqlite3VdbeCurrentAddr P6;
         P7 = (if c = TK_ALL \<or> c = TK_UNION then sqlite3VdbeAddOp2 OP_Gosub regOutB aOutB P6
               else P6);
         P8 = sqlite3VdbeGoto labelCmpr (sqlite3VdbeAddOp2 OP_Yield regAddrB aEofB P7);
         P9 = sqlite3VdbeJumpHere addr1 P8;
         P10 = sqlite3VdbeAddOp2 OP_Yield regAddrB aEofB
                 (sqlite3VdbeAddOp2 OP_Yield regAddrA aEofA_noB P9);
         P11 = sqlite3VdbeResolveLabel labelCmpr P10;
         P12 = sqlite3VdbeAddOp4 OP_Permutation 0 0 0 (P4_INTARRAY aPerm) P11;
         P13 = sqlite3VdbeChangeP5 OPFLAG_PERMUTE
                 (sqlite3VdbeAddOp4 OP_Compare (iSdst destA) (iSdst destB) nOrderBy
                    (P4_KEYDEF def_merge) P12);
         P14 = sqlite3VdbeAddOp3 OP_Jump aAltB aAeqB aAgtB P13;
         P15 = sqlite3VdbeResolveLabel labelEnd P14
     in (P15, p2, pDest2,
         \<lparr>addrOutA = aOutA, addrOutB = aOutB, addrEofA = aEofA, addrEofA_noB = aEofA_noB,
          addrEofB = aEofB, addrAltB = aAltB, addrAeqB = aAeqB, addrAgtB = aAgtB\<rparr>))"


text \<open>Blocks of \<open>multiSelect\<close> between and after the recursive calls.  \<open>ms_all_limit\<close> is the
  test between the two terms of a UNION ALL; \<open>ms_union_scan\<close> and \<open>ms_intersect_scan\<close> read
  the ephemeral relations back into the destination; \<open>ms_key_defs\<close> attaches the key
  definition to every ephemeral relation of the chain.\<close>

definition ms_all_limit :: "Parse \<Rightarrow> select_fields \<Rightarrow> int \<times> Parse" where
  "ms_all_limit P p =
     (if iLimit p \<noteq> 0 then
        let addr = sqlite3VdbeCurrentAddr P;
            P1 = sqlite3VdbeAddOp1 OP_IfNot (iLimit p) P
        in (addr, if iOffset p \<noteq> 0
                  then sqlite3VdbeAddOp3 OP_OffsetLimit (iLimit p) (iOffset p + 1) (iOffset p) P1
                  else P1)
      else (0, P))"

definition ms_union_scan ::
  "Parse \<Rightarrow> select_fields \<Rightarrow> SelectDest \<Rightarrow> int \<Rightarrow> Parse \<times> select_fields \<times> SelectDest" where
  "ms_union_scan P p dest unionTab =
     (let P0 = (if eDest dest = SRT_Output then generateColumnNames P else P);
          (iBrk, P1) = sqlite3VdbeMakeLabel P0;
          (iCont, P2) = sqlite3VdbeMakeLabel P1;
          (P3, p1) = computeLimitRegisters P2 p iBrk;
          P4 = sqlite3VdbeAddOp2 OP_Rewind unionTab iBrk P3;
          iStart = sqlite3VdbeCurrentAddr P4;
          (P5, d, so) = selectInnerLoop P4 p1 (pEList p1) unionTab None None dest iCont iBrk;
          P6 = sqlite3VdbeResolveLabel iCont P5;
          P7 = sqlite3VdbeAddOp2 OP_Next unionTab iStart P6;
          P8 = sqlite3VdbeResolveLabel iBrk P7
      in (sqlite3VdbeAddOp2 OP_Close unionTab 0 P8, p1, d))"

definition ms_intersect_scan ::
  "Parse \<Rightarrow> select_fields \<Rightarrow> SelectDest \<Rightarrow> int \<Rightarrow> int \<Rightarrow> Parse \<times> select_fields \<times> SelectDest" where
  "ms_intersect_scan P p dest tab1 tab2 =
     (let P0 = (if eDest dest = SRT_Output then generateColumnNames P else P);
          (iBrk, P1) = sqlite3VdbeMakeLabel P0;
          (iCont, P2) = sqlite3VdbeMakeLabel P1;
          (P3, p1) = computeLimitRegisters P2 p iBrk;
          P4 = sqlite3VdbeAddOp2 OP_Rewind tab1 iBrk P3;
          (r1, P5) = sqlite3GetTempReg P4;
          iStart = sqlite3VdbeCurrentAddr P5;
          P6 = sqlite3VdbeAddOp2 OP_RowData tab1 r1 P5;
          P7 = sqlite3VdbeAddOp4Int OP_NotFound tab2 iCont r1 0 P6;
          P8 = sqlite3ReleaseTempReg r1 P7;
          (P9, d, so) = selectInnerLoop P8 p1 (pEList p1) tab1 None None dest iCont iBrk;
          P10 = sqlite3VdbeResolveLabel iCont P9;
          P11 = sqlite3VdbeAddOp2 OP_Next tab1 iStart P10;
          P12 = sqlite3VdbeResolveLabel iBrk P11;
          P13 = sqlite3VdbeAddOp2 OP_Close tab2 0 P12
      in (sqlite3VdbeAddOp2 OP_Close tab1 0 P13, p1, d))"

fun ms_patch_ephemeral :: "int \<Rightarrow> key_def \<Rightarrow> Select \<Rightarrow> Parse \<Rightarrow> Parse \<times> Select" where
  "ms_patch_ephemeral nCol kd (Select f src pr) P =
     (let (a0, a1) = addrOpenEphm f;
          (P1, f1) =
            (if a0 < 0 then (P, f)
             else
               let Pa = sqlite3VdbeChangeP4 a0 (P4_KEYDEF kd) (sqlite3VdbeChangeP2 a0 nCol P)
               in if a1 < 0 then (Pa, f\<lparr>addrOpenEphm := (-1, a1)\<rparr>)
                  else (sqlite3VdbeChangeP4 a1 (P4_KEYDEF kd) (sqlite3VdbeChangeP2 a1 nCol Pa),
                        f\<lparr>addrOpenEphm := (-1, -1)\<rparr>))
      in case pr of
           None \<Rightarrow> (P1, Select f1 src None)
         | Some q \<Rightarrow> (let (P2, q1) = ms_patch_ephemeral nCol kd q P1 in (P2, Select f1 src (Some q1))))"

definition ms_key_defs :: "Select \<Rightarrow> Parse \<Rightarrow> Parse \<times> Select" where
  "ms_key_defs p P =
     (if SF_UsesEphemeral \<in> selFlags (sf p) then
        let nCol = length (pEList (sf p));
            kd = map (\<lambda>i. \<lparr>fieldno = i, coll_id = multi_select_coll_seq p i,
                            part_order = SORT_ORDER_ASC\<rparr>) [0..<nCol]
        in ms_patch_ephemeral (int nCol) kd p P
      else (P, p))"

definition msg_order_before :: "token \<Rightarrow> string" where
  "msg_order_before c = ''ORDER BY clause should come after '' @ selectOpName c @ '' not before''"

definition msg_limit_before :: "token \<Rightarrow> string" where
  "msg_limit_before c = ''LIMIT clause should come after '' @ selectOpName c @ '' not before''"

definition mark_ephemeral :: "bool \<Rightarrow> select_fields \<Rightarrow> select_fields" where
  "mark_ephemeral b f = (if b then f\<lparr>selFlags := insert SF_UsesEphemeral (selFlags f)\<rparr> else f)"

text \<open>
  \<open>sqlite3Select\<close>, \<open>multiSelect\<close> and \<open>multiSelectOrderBy\<close>.  Each returns its return code,
  the parsing context, the query as the C code leaves it, and the destination.  \<open>bNext\<close>
  says whether the query has a term to its right (\<open>pNext\<close> is not null); the last
  component of the result asks the caller to set \<open>SF_UsesEphemeral\<close> on the right-most
  term, which is what \<open>findRightmost(p)->selFlags |= SF_UsesEphemeral\<close> does through the
  back pointers.  VALUES lists and recursive queries are outside the model.
\<close>

function sqlite3Select :: "Parse \<Rightarrow> Select \<Rightarrow> SelectDest \<Rightarrow> bool \<Rightarrow> int \<times> Parse \<times> Select \<times> SelectDest \<times> bool"
  and multiSelect :: "Parse \<Rightarrow> Select \<Rightarrow> SelectDest \<Rightarrow> bool \<Rightarrow> int \<times> Parse \<times> Select \<times> SelectDest \<times> bool"
  and multiSelectOrderBy :: "Parse \<Rightarrow> Select \<Rightarrow> SelectDest \<Rightarrow> bool \<Rightarrow> int \<times> Parse \<times> Select \<times> SelectDest \<times> bool"
where
  "sqlite3Select pParse0 (Select f0 src pr) pDest bNext =
    (let iRestoreSelectId = iSelectId pParse0;
         pParse = pParse0\<lparr>iSelectId := iNextSelectId pParse0,
                          iNextSelectId := iNextSelectId pParse0 + 1\<rparr>
     in if mallocFailed pParse \<or> nErr pParse > 0 then (1, pParse, Select f0 src pr, pDest, False)
        else
          let f = (if IgnorableOrderby pDest
                   then f0\<lparr>pOrderBy := None, selFlags := selFlags f0 - {SF_Distinct}\<rparr> else f0)
          in case pr of
               None \<Rightarrow>
                 (let (r, P1, f1, d1) = sqlite3Select_simple pParse iRestoreSelectId f src pDest
                  in (r, P1, Select f1 src None, d1, False))
             | Some q \<Rightarrow>
                 (let (r, P1, p1, d1, u) = multiSelect pParse (Select f src (Some q)) pDest bNext;
                      P2 = P1\<lparr>iSelectId := iRestoreSelectId\<rparr>;
                      (lend, P3) = sqlite3VdbeMakeLabel P2;
                      P4 = (if SF_SingleRow \<in> selFlags (sf p1) \<and> iLimit (sf p1) \<noteq> 0
                            then vdbe_code_raise_on_multiple_rows P3 (iLimit (sf p1)) lend else P3)
                  in (r, sqlite3VdbeResolveLabel lend P4, p1, d1, u)))"
| "multiSelect pParse (Select f src None) pDest bNext = (1, pParse, Select f src None, pDest, False)"
| "multiSelect pParse (Select f src (Some (Select fp srcp prp))) pDest bNext =
    (if pOrderBy fp \<noteq> None then
       (1, sqlite3ErrorMsg (msg_order_before (op f)) pParse,
        Select f src (Some (Select fp srcp prp)), pDest, False)
     else if pLimit fp \<noteq> None then
       (1, sqlite3ErrorMsg (msg_limit_before (op f)) pParse,
        Select f src (Some (Select fp srcp prp)), pDest, False)
     else
       let (Pa, dest) =
             (if eDest pDest = SRT_EphemTab
              then (sqlite3VdbeAddOp2 OP_OpenTEphemeral (iSDParm pDest) (int (length (pEList f)) + 1) pParse,
                    pDest\<lparr>eDest := SRT_Table\<rparr>)
              else (pParse, pDest))
       in if SF_MultiValue \<in> selFlags f \<or> SF_Recursive \<in> selFlags f then
            (0, Pa\<lparr>notModelled := True\<rparr>, Select f src (Some (Select fp srcp prp)),
             pDest\<lparr>iSdst := iSdst dest, nSdst := nSdst dest\<rparr>, False)
          else if pOrderBy f \<noteq> None then
            multiSelectOrderBy Pa (Select f src (Some (Select fp srcp prp))) pDest bNext
          else
            let (r, Pz, pz, dz, uz, early) =
              (if op f = TK_ALL then
                 let fp1 = fp\<lparr>iLimit := iLimit f, iOffset := iOffset f, pLimit := pLimit f,
                              pOffset := pOffset f\<rparr>;
                     iSub1 = iNextSelectId Pa;
                     (r1, P1, q1, d1, u1) = sqlite3Select Pa (Select fp1 srcp prp) dest True;
                     f1 = mark_ephemeral (u1 \<and> \<not> bNext) (f\<lparr>pLimit := None, pOffset := None\<rparr>)
                 in if r1 \<noteq> 0 then (r1, P1, Select f1 src (Some q1), d1, u1 \<and> bNext, True)
                    else
                      let f2 = f1\<lparr>iLimit := iLimit (sf q1), iOffset := iOffset (sf q1)\<rparr>;
                          (addr, P2) = ms_all_limit P1 f2;
                          iSub2 = iNextSelectId P2;
                          (r2, P3, p3, d3, u3) = sqlite3Select P2 (Select f2 src None) d1 bNext;
                          f3 = (sf p3)\<lparr>nSelectRow := sqlite3LogEstAdd (nSelectRow (sf p3))
                                                         (nSelectRow (sf q1))\<rparr>;
                          f4 = (case pLimit (sf q1) of
                                  None \<Rightarrow> f3
                                | Some lim \<Rightarrow>
                                    (case sqlite3ExprIsInteger lim of
                                       None \<Rightarrow> f3
                                     | Some nLimit \<Rightarrow>
                                         if nLimit > 0 \<and> nSelectRow f3 > sqlite3LogEst (nat nLimit)
                                         then f3\<lparr>nSelectRow := sqlite3LogEst (nat nLimit)\<rparr> else f3));
                          P4 = (if addr \<noteq> 0 then sqlite3VdbeJumpHere addr P3 else P3)
                      in (r2, explainComposite (op f) iSub1 iSub2 False P4,
                          Select f4 src (Some q1), d3, u1 \<and> bNext, False)
               else if op f = TK_EXCEPT \<or> op f = TK_UNION then
                 let priorOp = SRT_Union;
                     (unionTab, P1, f1, u0) =
                       (if eDest dest = priorOp then (iSDParm dest, Pa, f, False)
                        else
                          let t = nTab Pa;
                              Pb = Pa\<lparr>nTab := nTab Pa + 1\<rparr>;
                              addr = sqlite3VdbeCurrentAddr Pb
                          in (t, sqlite3VdbeAddOp2 OP_OpenTEphemeral t 0 Pb,
                              mark_ephemeral (\<not> bNext) (f\<lparr>addrOpenEphm := (addr, snd (addrOpenEphm f))\<rparr>),
                              bNext));
                     uniondest = sqlite3SelectDestInit priorOp unionTab;
                     iSub1 = iNextSelectId P1;
                     (r1, P2, q1, ud1, u1) = sqlite3Select P1 (Select fp srcp prp) uniondest True;
                     f2 = mark_ephemeral (u1 \<and> \<not> bNext) f1;
                     uu = (u0 \<or> (u1 \<and> bNext))
                 in if r1 \<noteq> 0 then (r1, P2, Select f2 src (Some q1), dest, uu, True)
                    else
                      let f3 = f2\<lparr>pLimit := None, pOffset := None\<rparr>;
                          ud2 = ud1\<lparr>eDest := (if op f = TK_EXCEPT then SRT_Except else SRT_Union)\<rparr>;
                          iSub2 = iNextSelectId P2;
                          (r2, P3, p3, ud3, u3) = sqlite3Select P2 (Select f3 src None) ud2 bNext;
                          f4 = (sf p3)\<lparr>pOrderBy := None\<rparr>;
                          f5 = (if op f = TK_UNION
                                then f4\<lparr>nSelectRow := sqlite3LogEstAdd (nSelectRow f4) (nSelectRow (sf q1))\<rparr>
                                else f4);
                          f6 = f5\<lparr>pLimit := pLimit f, pOffset := pOffset f, iLimit := 0, iOffset := 0\<rparr>;
                          (P4, f7, d4) =
                            (if eDest dest \<noteq> priorOp then ms_union_scan P3 f6 dest unionTab
                             else (P3, f6, dest))
                      in (r2, explainComposite (op f) iSub1 iSub2 True P4,
                          Select f7 src (Some q1), d4, uu, False)
               else
                 let tab1 = nTab Pa;
                     tab2 = nTab Pa + 1;
                     Pb = Pa\<lparr>nTab := nTab Pa + 2\<rparr>;
                     addr = sqlite3VdbeCurrentAddr Pb;
                     P1 = sqlite3VdbeAddOp2 OP_OpenTEphemeral tab1 0 Pb;
                     f1 = mark_ephemeral (\<not> bNext) (f\<lparr>addrOpenEphm := (addr, snd (addrOpenEphm f))\<rparr>);
                     intersectdest = sqlite3SelectDestInit SRT_Union tab1;
                     iSub1 = iNextSelectId P1;
                     (r1, P2, q1, id1, u1) = sqlite3Select P1 (Select fp srcp prp) intersectdest True;
                     f2 = mark_ephemeral (u1 \<and> \<not> bNext) f1;
                     uu = bNext
                 in if r1 \<noteq> 0 then (r1, P2, Select f2 src (Some q1), dest, uu, True)
                    else
                      let addr2 = sqlite3VdbeCurrentAddr P2;
                          P3 = sqlite3VdbeAddOp2 OP_OpenTEphemeral tab2 0 P2;
                          f3 = f2\<lparr>addrOpenEphm := (fst (addrOpenEphm f2), addr2),
                                  pLimit := None, pOffset := None\<rparr>;
                          id2 = id1\<lparr>iSDParm := tab2\<rparr>;
                          iSub2 = iNextSelectId P3;
                          (r2, P4, p4, id3, u3) = sqlite3Select P3 (Select f3 src None) id2 bNext;
                          f4 = (if nSelectRow (sf p4) > nSelectRow (sf q1)
                                then (sf p4)\<lparr>nSelectRow := nSelectRow (sf q1)\<rparr> else sf p4);
                          f5 = f4\<lparr>pLimit := pLimit f, pOffset := pOffset f\<rparr>;
                          (P5, f6, d5) = ms_intersect_scan P4 f5 dest tab1 tab2
                      in (r2, explainComposite (op f) iSub1 iSub2 True P5,
                          Select f6 src (Some q1), d5, uu, False));
                (Pk, pk) = (if early then (Pz, pz) else ms_key_defs pz Pz)
            in (r, Pk, pk, pDest\<lparr>iSdst := iSdst dz, nSdst := nSdst dz\<rparr>, uz))"
| "multiSelectOrderBy pParse (Select f src None) pDest bNext =
     (1, pParse, Select f src None, pDest, False)"
| "multiSelectOrderBy pParse (Select f src (Some (Select fp srcp prp))) pDest bNext =
    (let (labelEnd, P1) = sqlite3VdbeMakeLabel pParse;
         (labelCmpr, P2) = sqlite3VdbeMakeLabel P1;
         c = op f;
         ob1 = (if c \<noteq> TK_ALL then extend_orderby 1 (length (pEList f)) (the (pOrderBy f))
                else the (pOrderBy f));
         nOrderBy = int (length ob1);
         aPerm = nOrderBy # map (\<lambda>it. int (iOrderByCol it) - 1) ob1;
         (def_merge, ob2) =
           sql_multiselect_orderby_to_key_def (Select f src (Some (Select fp srcp prp))) ob1;
         (regPrev, P3, def_dup) =
           (if c = TK_ALL then (0, P2, [])
            else
              let expr_count = int (length (pEList f));
                  rp = nMem P2 + 1;
                  Pa = P2\<lparr>nMem := nMem P2 + expr_count + 1\<rparr>
              in (rp, sqlite3VdbeAddOp2 OP_Integer 0 rp Pa,
                  map (\<lambda>i. \<lparr>fieldno = i,
                             coll_id = multi_select_coll_seq (Select f src (Some (Select fp srcp prp))) i,
                             part_order = SORT_ORDER_ASC\<rparr>) [0..<length (pEList f)]));
         f1 = f\<lparr>pOrderBy := Some (sqlite3ResolveOrderGroupBy (pEList f) ob2)\<rparr>;
         fp1 = fp\<lparr>pOrderBy := Some (if prp = None then sqlite3ResolveOrderGroupBy (pEList fp) ob2
                                      else ob2)\<rparr>;
         (P4, f2) = computeLimitRegisters P3 f1 labelEnd;
         (regLimitA, regLimitB, P5) =
           (if iLimit f2 \<noteq> 0 \<and> c = TK_ALL then
              let a = nMem P4 + 1; b = nMem P4 + 2;
                  Pa = P4\<lparr>nMem := nMem P4 + 2\<rparr>;
                  Pb = sqlite3VdbeAddOp2 OP_Copy
                         (if iOffset f2 \<noteq> 0 then iOffset f2 + 1 else iLimit f2) a Pa
              in (a, b, sqlite3VdbeAddOp2 OP_Copy a b Pb)
            else (0, 0, P4));
         f3 = f2\<lparr>pLimit := None, pOffset := None\<rparr>;
         regAddrA = nMem P5 + 1;
         regAddrB = nMem P5 + 2;
         regOutA = nMem P5 + 3;
         regOutB = nMem P5 + 4;
         P6 = P5\<lparr>nMem := nMem P5 + 4\<rparr>;
         destA = sqlite3SelectDestInit SRT_Coroutine regAddrA;
         destB = sqlite3SelectDestInit SRT_Coroutine regAddrB;
         addrSelectA = sqlite3VdbeCurrentAddr P6 + 1;
         addr1 = sqlite3VdbeCurrentAddr P6;
         P7 = sqlite3VdbeAddOp3 OP_InitCoroutine regAddrA 0 addrSelectA P6;
         iSub1 = iNextSelectId P7;
         (rA, P8, qA, dA, uA) = sqlite3Select P7 (Select (fp1\<lparr>iLimit := regLimitA\<rparr>) srcp prp) destA False;
         P9 = sqlite3VdbeJumpHere addr1 (sqlite3VdbeEndCoroutine regAddrA P8);
         addrSelectB = sqlite3VdbeCurrentAddr P9 + 1;
         addr1b = sqlite3VdbeCurrentAddr P9;
         P10 = sqlite3VdbeAddOp3 OP_InitCoroutine regAddrB 0 addrSelectB P9;
         iSub2 = iNextSelectId P10;
         (rB, P11, pB, dB, uB) =
           sqlite3Select P10 (Select (f3\<lparr>iLimit := regLimitB, iOffset := 0\<rparr>) src None) destB bNext;
         f4 = (sf pB)\<lparr>iLimit := iLimit f3, iOffset := iOffset f3\<rparr>;
         P12 = sqlite3VdbeEndCoroutine regAddrB P11;
         (P13, f5, pDest1, addrs) =
           merge_driver P12 c f4 (nSelectRow (sf qA)) dA dB pDest regAddrA regAddrB regOutA regOutB
             regPrev def_dup def_merge aPerm nOrderBy labelCmpr labelEnd addr1b;
         P14 = (if eDest pDest = SRT_Output then generateColumnNames P13 else P13);
         P15 = explainComposite c iSub1 iSub2 False P14
     in (if nErr P15 \<noteq> 0 then 1 else 0, P15, Select f5 src (Some qA), pDest1, False))"
  by pat_completeness auto

termination sqlite3Select
  by (relation "measure (\<lambda>x. case x of
           Inl (P, p, d, b) \<Rightarrow> 3 * size p + 2
         | Inr (Inl (P, p, d, b)) \<Rightarrow> 3 * size p + 1
         | Inr (Inr (P, p, d, b)) \<Rightarrow> 3 * size p)") simp_all

text \<open>A compound of two terms: \<open>pPrior\<close> of the right term is the left term.\<close>

fun compound :: "token \<Rightarrow> Select \<Rightarrow> Select \<Rightarrow> Select" where
  "compound c a (Select f src pr) = Select (f\<lparr>op := c\<rparr>) src (Some a)"

fun with_fields :: "(select_fields \<Rightarrow> select_fields) \<Rightarrow> Select \<Rightarrow> Select" where
  "with_fields g (Select f src pr) = Select (g f) src pr"

text \<open>Compiling a statement and running it: the program is the code of the query with its
  labels resolved, started on the empty machine, for a given number of steps.\<close>

definition compile :: "Select \<Rightarrow> SelectDest \<Rightarrow> int \<Rightarrow> Parse" where
  "compile p dest nCursors = fst (snd (sqlite3Select (parse_init nCursors) p dest False))"

definition exec :: "nat \<Rightarrow> Parse \<Rightarrow> (nat \<Rightarrow> Mem list list) \<Rightarrow> Vdbe" where
  "exec n P db = run n (vdbe_program P) (vdbe_init db (\<lambda>i. MNull))"


subsection \<open>Statement vocabulary and example inputs\<close>

text \<open>The argument list of an aggregate call consists of exactly one expression.\<close>

definition exactly_one_argument :: "AggInfo_func \<Rightarrow> bool" where
  "exactly_one_argument f = (\<exists>e. x_pList (func_pExpr f) = Some [e])"


text \<open>Two DISTINCT calls: \<open>count(DISTINCT 1, 2)\<close> on cursor 5 and \<open>count(DISTINCT 7)\<close> on
  cursor 6.\<close>

definition count_distinct_two :: AggInfo where
  "count_distinct_two =
     \<lparr>aCol = [],
      aFunc = [\<lparr>func_pExpr = Expr TK_AGG_FUNCTION {EP_Distinct} 0 ''count'' 0 0 None
                               (Some [expr_integer 1, expr_integer 2]) None 0,
                funcFlags = {}, func_iMem = 1, iDistinct = 5\<rparr>,
               \<lparr>func_pExpr = Expr TK_AGG_FUNCTION {EP_Distinct} 0 ''count'' 0 0 None
                               (Some [expr_integer 7]) None 1,
                funcFlags = {}, func_iMem = 2, iDistinct = 6\<rparr>],
      nAccumulator = 0, mnReg = 1, mxReg = 2\<rparr>"


text \<open>The query \<open>SELECT count(*) FROM tbl\<close> on a base table: one result column, the
  argument-free aggregate call \<open>count\<close>, no WHERE, GROUP BY, HAVING, ORDER BY or LIMIT.\<close>

definition select_count :: "string \<Rightarrow> nat \<Rightarrow> nat \<Rightarrow> int \<Rightarrow> Select" where
  "select_count name sp n cur =
     sqlite3SelectNew
       (Some [expr_item (Expr TK_AGG_FUNCTION {} 0 ''count'' 0 0 None None None 0)])
       [src_table name sp n cur] None None None None {SF_Aggregate} None None"

text \<open>The relations of the specification's examples: \<open>t1(x) = {1, 2, 3}\<close> is space 1 and
  \<open>t2(x) = {2, 3, 4}\<close> is space 2.\<close>

definition example_db :: "nat \<Rightarrow> Mem list list" where
  "example_db sp =
     (if sp = 1 then [[MInt 1], [MInt 2], [MInt 3]]
      else if sp = 2 then [[MInt 2], [MInt 3], [MInt 4]]
      else [])"



section \<open>Properties\<close>

subsection \<open>Evaluating the code generator\<close>

text \<open>A tuple pattern bound by \<open>let\<close> is unfolded into projections of one bound value, so
  that rewriting evaluates the bound term once, before its body.\<close>

lemma case_prod_let: "case_prod f p = (let q = p in f (fst q) (snd q))"
  by (simp add: Let_def case_prod_beta)

lemmas eval_cong = let_weak_cong prod.case_cong_weak option.case_cong_weak list.case_cong_weak
  if_weak_cong opcode.case_cong_weak srt.case_cong_weak token.case_cong_weak
  Mem.case_cong_weak p4_operand.case_cong_weak

lemmas gen_defs = compile_def parse_init_def select_table_def sqlite3SelectNew_def src_table_def
  expr_item_def expr_column_def expr_integer_def sqlite3Expr_def table_columns_def
  sqlite3SelectDestInit_def IgnorableOrderby_def sqlite3Select_simple_def
  sqlite3VdbeMakeLabel_def sqlite3VdbeResolveLabel_def sqlite3VdbeCurrentAddr_def
  sqlite3VdbeAddOp4_def sqlite3VdbeAddOp3_def sqlite3VdbeAddOp2_def sqlite3VdbeAddOp1_def
  sqlite3VdbeAddOp0_def sqlite3VdbeAddOp4Int_def sqlite3VdbeGoto_def op_index_def change_op_def
  sqlite3VdbeChangeP1_def sqlite3VdbeChangeP2_def sqlite3VdbeChangeP4_def sqlite3VdbeChangeP5_def
  sqlite3VdbeJumpHere_def sqlite3GetTempReg_def sqlite3ReleaseTempReg_def sqlite3GetTempRange_def
  sqlite3ReleaseTempRange_def sqlite3ClearTempRegCache_def sqlite3ExprCacheClear_def
  sqlite3ErrorMsg_def sqlite3ExprCode_def sqlite3ExprCodeMove_def computeLimitRegisters_def
  codeOffset_def sql_expr_coll_def sql_expr_list_to_key_def_def codeDistinct_def
  vdbe_emit_open_cursor_def sqlite3WhereBegin_def sqlite3WhereEnd_def
  sqlite3WhereContinueLabel_def sqlite3WhereBreakLabel_def pushOntoSorter_def
  generateSortTail_def selectInnerLoop_def no_sort_def explainTempTable_def
  generateColumnNames_def vdbe_code_raise_on_multiple_rows_def ms_all_limit_def
  ms_union_scan_def ms_intersect_scan_def ms_key_defs_def mark_ephemeral_def
  multi_select_coll_seq_def explainComposite_def sqlite3LogEstAdd_def select_aggregate_def
  is_simple_count_def explain_simple_count_def sqlite3FindFunction_def resetAccumulator_def
  sqlite3VdbeEndCoroutine_def generateOutputSubroutine_def merge_driver_def
  sql_multiselect_orderby_to_key_def_def sqlite3ResolveOrderGroupBy_def

lemmas rec_simps = sqlite3Select.simps multiSelect.simps multiSelectOrderBy.simps
  ms_patch_ephemeral.simps multi_select_coll_seq_r.simps reset_funcs.simps
  sqlite3ExprAnalyzeAggList.simps sqlite3ExprCodeExprList.simps

lemmas gen_eval = gen_defs[unfolded case_prod_let] rec_simps[unfolded case_prod_let]

lemmas vm_defs = exec_def vdbe_init_def step_def exec_op_def set_mem_def next_pc_def jump_to_def
  vm_fail_def set_cursor_def new_cursor_def with_cursor_def cursor_row_def mem_int_def
  mem_row_def reg_range_def p4_keydef_def eph_delete_def eph_found_def sorter_sort_def
  OPFLAG_PERMUTE_def SQLITE_NULLEQ_def

lemmas vm_eval = vm_defs[unfolded case_prod_let]

lemmas prog_defs = vdbe_program_def resolveP2_def is_jump_def mk_op_def

text \<open>Writes to registers and cursors are kept in the order of their numbers, so that a
  machine state has one normal form.\<close>

lemma fun_upd_sort:
  "a < b \<Longrightarrow> (f(b := y))(a := x) = (let g = f(a := x) in g(b := (y::'b)))" for a b :: int
  by (simp add: Let_def fun_upd_twist)

lemma null_regs_numeral: "null_regs a (numeral n) f = null_regs (a + 1) (pred_numeral n) (f(a := MNull))"
  by (simp add: numeral_eq_Suc)

lemma copy_regs_numeral:
  "copy_regs src a b (numeral n) f = copy_regs src (a + 1) (b + 1) (pred_numeral n) (f(b := src a))"
  by (simp add: numeral_eq_Suc)

lemmas run_eval = fun_upd_sort null_regs_numeral copy_regs_numeral upt_conv_Cons

lemma run_numeral: "run (numeral n) prog s = run (pred_numeral n) prog (step prog s)"
  by (simp add: numeral_eq_Suc)


subsection \<open>LIMIT registers are computed once\<close>

text \<open>
  C10.  \<open>computeLimitRegisters\<close> on a query whose limit register is already assigned
  (\<open>iLimit\<close> nonzero) returns at once: no instruction is emitted and neither the parsing
  context nor the query changes.  This is what lets the UNION ALL evaluator hand the left
  term's counter to the right term.
\<close>

theorem computeLimitRegisters_assigned_noop:
  "iLimit p \<noteq> 0 \<Longrightarrow> computeLimitRegisters pParse p iBreak = (pParse, p)"
  by (simp add: computeLimitRegisters_def)

theorem computeLimitRegisters_assigned_noop_witness:
  "iLimit ((sf (select_table ''t1'' 1 1 0))\<lparr>iLimit := 3\<rparr>) \<noteq> 0 \<and>
   computeLimitRegisters (parse_init 1) ((sf (select_table ''t1'' 1 1 0))\<lparr>iLimit := 3\<rparr>) 7
     = (parse_init 1, (sf (select_table ''t1'' 1 1 0))\<lparr>iLimit := 3\<rparr>)"
  using computeLimitRegisters_assigned_noop
          [of "(sf (select_table ''t1'' 1 1 0))\<lparr>iLimit := 3\<rparr>" "parse_init 1" 7]
  by simp

subsection \<open>DISTINCT aggregates\<close>


lemma length_one_iff: "length l = Suc 0 \<longleftrightarrow> (\<exists>a. l = [a])"
  by (cases l) auto

lemma reset_func_step:
  "(if iDistinct f \<ge> 0 then
               (case x_pList (func_pExpr f) of
                  None \<Rightarrow> (sqlite3ErrorMsg msg_distinct_agg P, f\<lparr>iDistinct := -1\<rparr>)
                | Some l \<Rightarrow>
                    if length l \<noteq> 1
                    then (sqlite3ErrorMsg msg_distinct_agg P, f\<lparr>iDistinct := -1\<rparr>)
                    else (sqlite3VdbeAddOp4 OP_OpenTEphemeral (iDistinct f) 1 0
                            (P4_KEYDEF (sql_expr_list_to_key_def (expr_items l) 0)) P, f))
             else (P, f)) =
   (if iDistinct f \<ge> 0 then
      (if exactly_one_argument f then
         (P\<lparr>aOp := aOp P @ [mk_op OP_OpenTEphemeral (iDistinct f) 1 0
            (P4_KEYDEF [\<lparr>fieldno = 0, coll_id = pColl (hd (the (x_pList (func_pExpr f)))),
                         part_order = SORT_ORDER_ASC\<rparr>])]\<rparr>, f)
       else (P\<lparr>nErr := Suc (nErr P), zErrMsg := msg_distinct_agg # zErrMsg P\<rparr>, f\<lparr>iDistinct := -1\<rparr>))
    else (P, f))"
  by (auto simp: exactly_one_argument_def length_one_iff sqlite3ErrorMsg_def sqlite3VdbeAddOp4_def
        sql_expr_list_to_key_def_def expr_items_def sql_expr_coll_def split: option.splits)

lemma reset_funcs_mono:
  "reset_funcs fs P = (P', fs') \<Longrightarrow>
     length fs' = length fs \<and> nErr P \<le> nErr P' \<and> set (zErrMsg P) \<subseteq> set (zErrMsg P') \<and>
     (\<exists>new. aOp P' = aOp P @ new)"
proof (induction fs arbitrary: P P' fs')
  case Nil
  then show ?case by simp
next
  case (Cons f fs)
  show ?case
    using Cons.prems
    unfolding reset_funcs.simps reset_func_step
    by (auto simp: Let_def split: if_splits prod.splits dest!: Cons.IH)
qed

lemma reset_funcs_nth:
  "reset_funcs fs P = (P', fs') \<Longrightarrow> i < length fs \<Longrightarrow> iDistinct (fs ! i) \<ge> 0 \<Longrightarrow>
   (exactly_one_argument (fs ! i) \<longrightarrow>
        (\<exists>pre post. aOp P' = aOp P @ pre @
            [mk_op OP_OpenTEphemeral (iDistinct (fs ! i)) 1 0
               (P4_KEYDEF [\<lparr>fieldno = 0, coll_id = pColl (hd (the (x_pList (func_pExpr (fs ! i))))),
                            part_order = SORT_ORDER_ASC\<rparr>])] @ post)
        \<and> fs' ! i = fs ! i) \<and>
   (\<not> exactly_one_argument (fs ! i) \<longrightarrow>
        msg_distinct_agg \<in> set (zErrMsg P') \<and> nErr P < nErr P' \<and> iDistinct (fs' ! i) = -1)"
proof (induction fs arbitrary: P P' fs' i)
  case Nil
  then show ?case by simp
next
  case (Cons f fs)
  obtain P1 f1 where h1:
    "(if iDistinct f \<ge> 0 then
      (if exactly_one_argument f then
         (P\<lparr>aOp := aOp P @ [mk_op OP_OpenTEphemeral (iDistinct f) 1 0
            (P4_KEYDEF [\<lparr>fieldno = 0, coll_id = pColl (hd (the (x_pList (func_pExpr f)))),
                         part_order = SORT_ORDER_ASC\<rparr>])]\<rparr>, f)
       else (P\<lparr>nErr := Suc (nErr P), zErrMsg := msg_distinct_agg # zErrMsg P\<rparr>, f\<lparr>iDistinct := -1\<rparr>))
    else (P, f)) = (P1, f1)"
    by (meson surj_pair)
  obtain P2 fs2 where h2: "reset_funcs fs P1 = (P2, fs2)" by (meson surj_pair)
  from Cons.prems(1) h1 h2 have e: "P' = P2" "fs' = f1 # fs2"
    unfolding reset_funcs.simps reset_func_step by (simp_all add: Let_def)
  note m2 = reset_funcs_mono[OF h2]
  from m2 obtain new2 where n2: "aOp P2 = aOp P1 @ new2" by auto
  have m1: "nErr P \<le> nErr P1" "set (zErrMsg P) \<subseteq> set (zErrMsg P1)" "\<exists>new. aOp P1 = aOp P @ new"
    using h1 by (auto split: if_splits)
  from m1 obtain new1 where n1: "aOp P1 = aOp P @ new1" by auto
  show ?case
  proof (cases i)
    case 0
    with Cons.prems have d: "iDistinct f \<ge> 0" by simp
    show ?thesis
    proof (cases "exactly_one_argument f")
      case True
      with h1 d have "aOp P1 = aOp P @ [] @ [mk_op OP_OpenTEphemeral (iDistinct f) 1 0
            (P4_KEYDEF [\<lparr>fieldno = 0, coll_id = pColl (hd (the (x_pList (func_pExpr f)))),
                         part_order = SORT_ORDER_ASC\<rparr>])]" and f1: "f1 = f" by auto
      with n2 have "aOp P2 = aOp P @ [] @ [mk_op OP_OpenTEphemeral (iDistinct f) 1 0
            (P4_KEYDEF [\<lparr>fieldno = 0, coll_id = pColl (hd (the (x_pList (func_pExpr f)))),
                         part_order = SORT_ORDER_ASC\<rparr>])] @ new2" by simp
      then have "\<exists>pre post. aOp P2 = aOp P @ pre @ [mk_op OP_OpenTEphemeral (iDistinct f) 1 0
            (P4_KEYDEF [\<lparr>fieldno = 0, coll_id = pColl (hd (the (x_pList (func_pExpr f)))),
                         part_order = SORT_ORDER_ASC\<rparr>])] @ post" by blast
      with True e 0 f1 show ?thesis by simp
    next
      case False
      with h1 d have "P1 = P\<lparr>nErr := Suc (nErr P), zErrMsg := msg_distinct_agg # zErrMsg P\<rparr>"
        "f1 = f\<lparr>iDistinct := -1\<rparr>" by auto
      with m2 e 0 False show ?thesis by auto
    qed
  next
    case (Suc j)
    with Cons.prems have j: "j < length fs" "iDistinct (fs ! j) \<ge> 0" by simp_all
    note ih = Cons.IH[OF h2 j]
    show ?thesis
    proof (cases "exactly_one_argument (fs ! j)")
      case True
      with ih obtain pre post where
        "aOp P2 = aOp P1 @ pre @ [mk_op OP_OpenTEphemeral (iDistinct (fs ! j)) 1 0
               (P4_KEYDEF [\<lparr>fieldno = 0, coll_id = pColl (hd (the (x_pList (func_pExpr (fs ! j))))),
                            part_order = SORT_ORDER_ASC\<rparr>])] @ post"
        and k: "fs2 ! j = fs ! j" by auto
      with n1 have "aOp P2 = aOp P @ (new1 @ pre) @ [mk_op OP_OpenTEphemeral (iDistinct (fs ! j)) 1 0
               (P4_KEYDEF [\<lparr>fieldno = 0, coll_id = pColl (hd (the (x_pList (func_pExpr (fs ! j))))),
                            part_order = SORT_ORDER_ASC\<rparr>])] @ post" by simp
      then have "\<exists>pre post. aOp P2 = aOp P @ pre @ [mk_op OP_OpenTEphemeral (iDistinct (fs ! j)) 1 0
               (P4_KEYDEF [\<lparr>fieldno = 0, coll_id = pColl (hd (the (x_pList (func_pExpr (fs ! j))))),
                            part_order = SORT_ORDER_ASC\<rparr>])] @ post" by blast
      with True e Suc k show ?thesis by simp
    next
      case False
      with ih m1 e Suc show ?thesis by auto
    qed
  qed
qed


text \<open>
  C9.  For an aggregate function call that uses DISTINCT (\<open>iDistinct\<close> is not negative):
  when its argument list is not exactly one expression, \<open>resetAccumulator\<close> reports the
  error "DISTINCT aggregates must have exactly one argument" and disables the call's
  dedup relation (\<open>iDistinct\<close> becomes \<open>-1\<close>); with exactly one argument it opens a
  one-column ephemeral relation on the call's cursor, keyed by that argument, and leaves
  the call as it was.
\<close>

theorem resetAccumulator_distinct:
  assumes "resetAccumulator P A = (P', A')"
    and "i < length (aFunc A)"
    and "iDistinct (aFunc A ! i) \<ge> 0"
  shows "(\<not> exactly_one_argument (aFunc A ! i) \<longrightarrow>
            msg_distinct_agg \<in> set (zErrMsg P') \<and> nErr P < nErr P' \<and> iDistinct (aFunc A' ! i) = -1) \<and>
         (exactly_one_argument (aFunc A ! i) \<longrightarrow>
            (\<exists>pre post. aOp P' = aOp P @ pre @
               [mk_op OP_OpenTEphemeral (iDistinct (aFunc A ! i)) 1 0
                  (P4_KEYDEF [\<lparr>fieldno = 0,
                     coll_id = pColl (hd (the (x_pList (func_pExpr (aFunc A ! i))))),
                     part_order = SORT_ORDER_ASC\<rparr>])] @ post)
            \<and> aFunc A' ! i = aFunc A ! i)"
proof -
  let ?P1 = "sqlite3VdbeAddOp3 OP_Null 0 (mnReg A) (mxReg A) P"
  from assms(2) have ne: "aFunc A \<noteq> []" by auto
  obtain P2 fs where h: "reset_funcs (aFunc A) ?P1 = (P2, fs)"
    by (meson surj_pair)
  with assms(1) ne have e: "P' = P2" "A' = A\<lparr>aFunc := fs\<rparr>"
    by (simp_all add: resetAccumulator_def Let_def)
  have a: "aOp ?P1 = aOp P @ [mk_op OP_Null 0 (mnReg A) (mxReg A) P4_NOTUSED]"
       "nErr ?P1 = nErr P"
    by (simp_all add: sqlite3VdbeAddOp3_def sqlite3VdbeAddOp4_def)
  note r = reset_funcs_nth[OF h assms(2,3)]
  show ?thesis
  proof (cases "exactly_one_argument (aFunc A ! i)")
    case True
    with r obtain pre post where
       "aOp P2 = aOp ?P1 @ pre @ [mk_op OP_OpenTEphemeral (iDistinct (aFunc A ! i)) 1 0
               (P4_KEYDEF [\<lparr>fieldno = 0,
                  coll_id = pColl (hd (the (x_pList (func_pExpr (aFunc A ! i))))),
                  part_order = SORT_ORDER_ASC\<rparr>])] @ post"
       and k: "fs ! i = aFunc A ! i" by auto
    then have "aOp P2 = aOp P @ (mk_op OP_Null 0 (mnReg A) (mxReg A) P4_NOTUSED # pre) @
               [mk_op OP_OpenTEphemeral (iDistinct (aFunc A ! i)) 1 0
               (P4_KEYDEF [\<lparr>fieldno = 0,
                  coll_id = pColl (hd (the (x_pList (func_pExpr (aFunc A ! i))))),
                  part_order = SORT_ORDER_ASC\<rparr>])] @ post"
      by (simp add: a)
    then have "\<exists>pre post. aOp P2 = aOp P @ pre @
               [mk_op OP_OpenTEphemeral (iDistinct (aFunc A ! i)) 1 0
               (P4_KEYDEF [\<lparr>fieldno = 0,
                  coll_id = pColl (hd (the (x_pList (func_pExpr (aFunc A ! i))))),
                  part_order = SORT_ORDER_ASC\<rparr>])] @ post" by blast
    with True e k show ?thesis by simp
  next
    case False
    with r e a show ?thesis by simp
  qed
qed

theorem resetAccumulator_distinct_witness:
  "msg_distinct_agg \<in> set (zErrMsg (fst (resetAccumulator (parse_init 7) count_distinct_two))) \<and>
   iDistinct (aFunc (snd (resetAccumulator (parse_init 7) count_distinct_two)) ! 0) = -1 \<and>
   (\<exists>pre post. aOp (fst (resetAccumulator (parse_init 7) count_distinct_two)) = pre @
      [mk_op OP_OpenTEphemeral 6 1 0
         (P4_KEYDEF [\<lparr>fieldno = 0, coll_id = None, part_order = SORT_ORDER_ASC\<rparr>])] @ post)"
proof -
  have h1: "resetAccumulator (parse_init 7) count_distinct_two =
            (fst (resetAccumulator (parse_init 7) count_distinct_two),
             snd (resetAccumulator (parse_init 7) count_distinct_two))" by simp
  have h2: "0 < length (aFunc count_distinct_two)" "1 < length (aFunc count_distinct_two)"
    by (simp_all add: count_distinct_two_def)
  have h3: "iDistinct (aFunc count_distinct_two ! 0) \<ge> 0" "iDistinct (aFunc count_distinct_two ! 1) \<ge> 0"
    by (simp_all add: count_distinct_two_def)
  have h4: "\<not> exactly_one_argument (aFunc count_distinct_two ! 0)"
           "exactly_one_argument (aFunc count_distinct_two ! 1)"
    by (simp_all add: count_distinct_two_def exactly_one_argument_def expr_integer_def)
  have h5: "iDistinct (aFunc count_distinct_two ! 1) = 6"
           "pColl (hd (the (x_pList (func_pExpr (aFunc count_distinct_two ! 1))))) = None"
           "aOp (parse_init 7) = []"
    by (simp_all add: count_distinct_two_def expr_integer_def parse_init_def)
  from resetAccumulator_distinct[OF h1 h2(1) h3(1)] resetAccumulator_distinct[OF h1 h2(2) h3(2)] h4
  show ?thesis unfolding h5 by simp
qed

end
